theory Spec2Isabelle
  imports Main "HOL-Library.Word"
begin

section \<open>Values\<close>

text \<open>
  The client is TypeScript, so a string is a sequence of UTF-16 code units. Literals of
  the source are written with \<open>str\<close>. A UUID is carried as its text, a timestamp as a
  number; \<open>NOW()\<close> and \<open>gen_random_uuid()\<close> enter every operation as arguments.
\<close>

type_synonym js_string = "16 word list"
type_synonym sql_text = js_string
type_synonym uuid = js_string
type_synonym timestamp = nat

definition str :: "string \<Rightarrow> js_string" where
  "str s = map of_char s"

section \<open>Schema (migration \<open>part_002\<close>)\<close>

datatype user_role = Job_seeker | Recruiter | Admin

datatype application_status = Applied | Viewed | Shortlisted | Rejected | Hired

datatype job_status = Open | Closed | Paused

text \<open>A row of \<open>auth.users\<close>, the table of the auth provider, as far as the trigger
  \<open>handle_new_user\<close> reads it. An identity has an email. The metadata is a JSON object,
  given by the texts that \<open>->>\<close> yields under its keys; under any other key \<open>->>\<close>
  yields NULL.\<close>

record auth_user =
  u_id :: uuid
  u_email :: sql_text
  u_raw_user_meta_data :: "(sql_text \<times> sql_text) list"

record profile =
  p_id :: uuid
  p_email :: sql_text
  p_full_name :: sql_text
  p_role :: user_role
  p_phone :: "sql_text option"
  p_location :: "sql_text option"
  p_bio :: "sql_text option"
  p_company_name :: "sql_text option"
  p_resume_url :: "sql_text option"
  p_profile_image_url :: "sql_text option"
  p_skills :: "sql_text list option"
  p_experience_years :: "int option"
  p_created_at :: "timestamp option"
  p_updated_at :: "timestamp option"

record job =
  j_id :: uuid
  j_recruiter_id :: uuid
  j_title :: sql_text
  j_description :: sql_text
  j_company_name :: sql_text
  j_location :: sql_text
  j_job_type :: sql_text
  j_salary_min :: "int option"
  j_salary_max :: "int option"
  j_required_skills :: "sql_text list"
  j_experience_required :: "int option"
  j_status :: job_status
  j_views_count :: "int option"
  j_applications_count :: "int option"
  j_created_at :: "timestamp option"
  j_updated_at :: "timestamp option"

record application =
  a_id :: uuid
  a_job_id :: uuid
  a_applicant_id :: uuid
  a_status :: application_status
  a_cover_letter :: "sql_text option"
  a_resume_url :: "sql_text option"
  a_applied_at :: "timestamp option"
  a_updated_at :: "timestamp option"

record saved_job =
  s_id :: uuid
  s_job_id :: uuid
  s_user_id :: uuid
  s_saved_at :: "timestamp option"

text \<open>A row of \<open>storage.objects\<close>: the bucket, the object's path and its content
  (here: the size of the file).\<close>

record storage_object =
  o_bucket_id :: sql_text
  o_name :: sql_text
  o_size :: nat

record db =
  auth_users :: "auth_user list"
  profiles :: "profile list"
  jobs :: "job list"
  applications :: "application list"
  saved_jobs :: "saved_job list"
  objects :: "storage_object list"

definition empty_db :: db where
  "empty_db = \<lparr>auth_users = [], profiles = [], jobs = [], applications = [],
     saved_jobs = [], objects = []\<rparr>"

text \<open>What a statement can fail with, and the SQLSTATE the client sees in \<open>error.code\<close>.\<close>

datatype pg_error = Unique_violation | Foreign_key_violation | Insufficient_privilege

fun code :: "pg_error \<Rightarrow> js_string" where
  "code Unique_violation = str ''23505''"
| "code Foreign_key_violation = str ''23503''"
| "code Insufficient_privilege = str ''42501''"

subsection \<open>Rows as written by INSERT: omitted columns take their DEFAULT\<close>

text \<open>For a nullable column with a DEFAULT, \<open>None\<close> is "omitted" and \<open>Some None\<close> an
  explicit NULL.\<close>

record job_insert =
  ji_id :: "uuid option"
  ji_recruiter_id :: uuid
  ji_title :: sql_text
  ji_description :: sql_text
  ji_company_name :: sql_text
  ji_location :: sql_text
  ji_job_type :: sql_text
  ji_salary_min :: "int option"
  ji_salary_max :: "int option"
  ji_required_skills :: "sql_text list"
  ji_experience_required :: "int option"
  ji_status :: "job_status option"
  ji_views_count :: "int option option"
  ji_applications_count :: "int option option"
  ji_created_at :: "timestamp option option"
  ji_updated_at :: "timestamp option option"

record application_insert =
  ai_id :: "uuid option"
  ai_job_id :: uuid
  ai_applicant_id :: uuid
  ai_status :: "application_status option"
  ai_cover_letter :: "sql_text option"
  ai_resume_url :: "sql_text option"
  ai_applied_at :: "timestamp option option"
  ai_updated_at :: "timestamp option option"

record saved_job_insert =
  si_id :: "uuid option"
  si_job_id :: uuid
  si_user_id :: uuid
  si_saved_at :: "timestamp option option"

definition dflt :: "'a \<Rightarrow> 'a option \<Rightarrow> 'a" where
  "dflt d v = (case v of None \<Rightarrow> d | Some x \<Rightarrow> x)"

definition jobs_row :: "timestamp \<Rightarrow> uuid \<Rightarrow> job_insert \<Rightarrow> job" where
  "jobs_row now gen i =
     \<lparr>j_id = dflt gen (ji_id i),
      j_recruiter_id = ji_recruiter_id i,
      j_title = ji_title i,
      j_description = ji_description i,
      j_company_name = ji_company_name i,
      j_location = ji_location i,
      j_job_type = ji_job_type i,
      j_salary_min = ji_salary_min i,
      j_salary_max = ji_salary_max i,
      j_required_skills = ji_required_skills i,
      j_experience_required = ji_experience_required i,
      j_status = dflt Open (ji_status i),
      j_views_count = dflt (Some 0) (ji_views_count i),
      j_applications_count = dflt (Some 0) (ji_applications_count i),
      j_created_at = dflt (Some now) (ji_created_at i),
      j_updated_at = dflt (Some now) (ji_updated_at i)\<rparr>"

definition applications_row :: "timestamp \<Rightarrow> uuid \<Rightarrow> application_insert \<Rightarrow> application" where
  "applications_row now gen i =
     \<lparr>a_id = dflt gen (ai_id i),
      a_job_id = ai_job_id i,
      a_applicant_id = ai_applicant_id i,
      a_status = dflt Applied (ai_status i),
      a_cover_letter = ai_cover_letter i,
      a_resume_url = ai_resume_url i,
      a_applied_at = dflt (Some now) (ai_applied_at i),
      a_updated_at = dflt (Some now) (ai_updated_at i)\<rparr>"

definition saved_jobs_row :: "timestamp \<Rightarrow> uuid \<Rightarrow> saved_job_insert \<Rightarrow> saved_job" where
  "saved_jobs_row now gen i =
     \<lparr>s_id = dflt gen (si_id i),
      s_job_id = si_job_id i,
      s_user_id = si_user_id i,
      s_saved_at = dflt (Some now) (si_saved_at i)\<rparr>"

section \<open>Row-level security policies\<close>

text \<open>
  \<open>auth.uid()\<close> is the caller's identity, NULL for an anonymous caller: it is a
  \<open>uuid option\<close>, and \<open>col = auth.uid()\<close> is \<open>Some col = uid\<close>, which is not true for
  NULL. A sub-select inside a policy runs as the caller, so it goes through the SELECT
  policy of the table it reads.
\<close>

definition profiles_select_policy :: "uuid option \<Rightarrow> profile \<Rightarrow> bool" where
  "profiles_select_policy uid p \<longleftrightarrow> True"

definition profiles_update_policy :: "uuid option \<Rightarrow> profile \<Rightarrow> bool" where
  "profiles_update_policy uid p \<longleftrightarrow> uid = Some (p_id p)"

definition select_profiles :: "db \<Rightarrow> uuid option \<Rightarrow> (profile \<Rightarrow> bool) \<Rightarrow> profile list" where
  "select_profiles d uid wher =
     filter (\<lambda>p. profiles_select_policy uid p \<and> wher p) (profiles d)"

definition jobs_select_policy :: "uuid option \<Rightarrow> job \<Rightarrow> bool" where
  "jobs_select_policy uid j \<longleftrightarrow> j_status j = Open \<or> Some (j_recruiter_id j) = uid"

definition select_jobs :: "db \<Rightarrow> uuid option \<Rightarrow> (job \<Rightarrow> bool) \<Rightarrow> job list" where
  "select_jobs d uid wher = filter (\<lambda>j. jobs_select_policy uid j \<and> wher j) (jobs d)"

definition jobs_insert_policy :: "db \<Rightarrow> uuid option \<Rightarrow> job \<Rightarrow> bool" where
  "jobs_insert_policy d uid j \<longleftrightarrow>
     Some (j_recruiter_id j) = uid \<and>
     select_profiles d uid (\<lambda>p. Some (p_id p) = uid \<and> p_role p = Recruiter) \<noteq> []"

definition jobs_update_policy :: "uuid option \<Rightarrow> job \<Rightarrow> bool" where
  "jobs_update_policy uid j \<longleftrightarrow> Some (j_recruiter_id j) = uid"

definition jobs_delete_policy :: "uuid option \<Rightarrow> job \<Rightarrow> bool" where
  "jobs_delete_policy uid j \<longleftrightarrow> Some (j_recruiter_id j) = uid"

definition applications_select_policy :: "db \<Rightarrow> uuid option \<Rightarrow> application \<Rightarrow> bool" where
  "applications_select_policy d uid a \<longleftrightarrow>
     Some (a_applicant_id a) = uid \<or>
     select_jobs d uid (\<lambda>j. j_id j = a_job_id a \<and> Some (j_recruiter_id j) = uid) \<noteq> []"

definition applications_insert_policy :: "db \<Rightarrow> uuid option \<Rightarrow> application \<Rightarrow> bool" where
  "applications_insert_policy d uid a \<longleftrightarrow>
     Some (a_applicant_id a) = uid \<and>
     select_profiles d uid (\<lambda>p. Some (p_id p) = uid \<and> p_role p = Job_seeker) \<noteq> []"

definition applications_update_policy :: "db \<Rightarrow> uuid option \<Rightarrow> application \<Rightarrow> bool" where
  "applications_update_policy d uid a \<longleftrightarrow>
     select_jobs d uid (\<lambda>j. j_id j = a_job_id a \<and> Some (j_recruiter_id j) = uid) \<noteq> []"

definition saved_jobs_select_policy :: "uuid option \<Rightarrow> saved_job \<Rightarrow> bool" where
  "saved_jobs_select_policy uid s \<longleftrightarrow> Some (s_user_id s) = uid"

definition saved_jobs_insert_policy :: "uuid option \<Rightarrow> saved_job \<Rightarrow> bool" where
  "saved_jobs_insert_policy uid s \<longleftrightarrow> Some (s_user_id s) = uid"

definition saved_jobs_delete_policy :: "uuid option \<Rightarrow> saved_job \<Rightarrow> bool" where
  "saved_jobs_delete_policy uid s \<longleftrightarrow> Some (s_user_id s) = uid"

section \<open>Constraints\<close>

text \<open>Primary keys and the two UNIQUE constraints.\<close>

definition unique_ok :: "db \<Rightarrow> bool" where
  "unique_ok d \<longleftrightarrow>
     distinct (map u_id (auth_users d)) \<and>
     distinct (map p_id (profiles d)) \<and>
     distinct (map j_id (jobs d)) \<and>
     distinct (map a_id (applications d)) \<and>
     distinct (map (\<lambda>a. (a_job_id a, a_applicant_id a)) (applications d)) \<and>
     distinct (map s_id (saved_jobs d)) \<and>
     distinct (map (\<lambda>s. (s_job_id s, s_user_id s)) (saved_jobs d))"

text \<open>The six foreign keys.\<close>

definition fk_ok :: "db \<Rightarrow> bool" where
  "fk_ok d \<longleftrightarrow>
     (\<forall>p \<in> set (profiles d). p_id p \<in> set (map u_id (auth_users d))) \<and>
     (\<forall>j \<in> set (jobs d). j_recruiter_id j \<in> set (map p_id (profiles d))) \<and>
     (\<forall>a \<in> set (applications d).
        a_job_id a \<in> set (map j_id (jobs d)) \<and>
        a_applicant_id a \<in> set (map p_id (profiles d))) \<and>
     (\<forall>s \<in> set (saved_jobs d).
        s_job_id s \<in> set (map j_id (jobs d)) \<and>
        s_user_id s \<in> set (map p_id (profiles d)))"

section \<open>Triggers\<close>

text \<open>\<open>update_updated_at_column\<close> is one function installed by three BEFORE UPDATE
  triggers; each instance below carries its trigger's name.\<close>

definition update_profiles_updated_at :: "timestamp \<Rightarrow> profile \<Rightarrow> profile" where
  "update_profiles_updated_at now NEW = NEW\<lparr>p_updated_at := Some now\<rparr>"

definition update_jobs_updated_at :: "timestamp \<Rightarrow> job \<Rightarrow> job" where
  "update_jobs_updated_at now NEW = NEW\<lparr>j_updated_at := Some now\<rparr>"

definition update_applications_updated_at :: "timestamp \<Rightarrow> application \<Rightarrow> application" where
  "update_applications_updated_at now NEW = NEW\<lparr>a_updated_at := Some now\<rparr>"

definition coalesce :: "'a option \<Rightarrow> 'a \<Rightarrow> 'a" where
  "coalesce v d = (case v of Some x \<Rightarrow> x | None \<Rightarrow> d)"

text \<open>\<open>handle_new_user\<close> is SECURITY DEFINER: its INSERT is not subject to the policies
  of \<open>profiles\<close>, only to the table's constraints. Columns it does not name take their
  DEFAULT (\<open>role\<close>: job_seeker, the timestamps: NOW()) or NULL.\<close>

definition handle_new_user :: "db \<Rightarrow> timestamp \<Rightarrow> auth_user \<Rightarrow> pg_error + db" where
  "handle_new_user d now NEW =
     (let row = \<lparr>p_id = u_id NEW,
                 p_email = u_email NEW,
                 p_full_name =
                   coalesce (map_of (u_raw_user_meta_data NEW) (str ''full_name'')) (str ''User''),
                 p_role = Job_seeker,
                 p_phone = None, p_location = None, p_bio = None, p_company_name = None,
                 p_resume_url = None, p_profile_image_url = None, p_skills = None,
                 p_experience_years = None,
                 p_created_at = Some now, p_updated_at = Some now\<rparr>
      in if p_id row \<in> set (map p_id (profiles d)) then Inl Unique_violation
         else if p_id row \<notin> set (map u_id (auth_users d)) then Inl Foreign_key_violation
         else Inr (d\<lparr>profiles := profiles d @ [row]\<rparr>))"

text \<open>Creating an identity: the INSERT on \<open>auth.users\<close>, then the AFTER INSERT trigger
  \<open>on_auth_user_created\<close> in the same transaction (an error of the trigger undoes the
  insert).\<close>

definition create_identity :: "db \<Rightarrow> timestamp \<Rightarrow> auth_user \<Rightarrow> pg_error + db" where
  "create_identity d now u =
     (if u_id u \<in> set (map u_id (auth_users d)) then Inl Unique_violation
      else handle_new_user (d\<lparr>auth_users := auth_users d @ [u]\<rparr>) now u)"

section \<open>Statements\<close>

text \<open>
  An INSERT checks the WITH CHECK policy on the new row, then the unique indexes, then the
  foreign keys. An UPDATE or DELETE reaches the rows that pass the USING policy of the
  command, the SELECT policy (its WHERE clause reads the table) and the WHERE clause;
  other rows are skipped without an error. A policy FOR UPDATE without WITH CHECK applies
  its USING expression to the new row as well. The BEFORE UPDATE trigger runs on each row
  that is written. The constraints are checked on the table as the statement leaves it;
  a statement that fails changes nothing. An INTEGER column holds any integer here: the
  range of the type, and the error of a value outside it, are not modelled.
\<close>

definition insert_job ::
  "db \<Rightarrow> uuid option \<Rightarrow> timestamp \<Rightarrow> uuid \<Rightarrow> job_insert \<Rightarrow> pg_error + db" where
  "insert_job d uid now gen i =
     (let row = jobs_row now gen i
      in if \<not> jobs_insert_policy d uid row then Inl Insufficient_privilege
         else if j_id row \<in> set (map j_id (jobs d)) then Inl Unique_violation
         else if j_recruiter_id row \<notin> set (map p_id (profiles d)) then Inl Foreign_key_violation
         else Inr (d\<lparr>jobs := jobs d @ [row]\<rparr>))"

definition update_jobs ::
  "db \<Rightarrow> uuid option \<Rightarrow> timestamp \<Rightarrow> (job \<Rightarrow> bool) \<Rightarrow> (job \<Rightarrow> job) \<Rightarrow> pg_error + db" where
  "update_jobs d uid now wher setf =
     (let target = (\<lambda>j. jobs_update_policy uid j \<and> jobs_select_policy uid j \<and> wher j);
          new = (\<lambda>j. update_jobs_updated_at now (setf j));
          d' = d\<lparr>jobs := map (\<lambda>j. if target j then new j else j) (jobs d)\<rparr>
      in if \<exists>j \<in> set (jobs d). target j \<and> \<not> jobs_update_policy uid (new j)
         then Inl Insufficient_privilege
         else if \<not> unique_ok d' then Inl Unique_violation
         else if \<not> fk_ok d' then Inl Foreign_key_violation
         else Inr d')"

text \<open>Deleting a job removes, by ON DELETE CASCADE, the applications and saved jobs that
  reference it. The cascade is not subject to the policies of those tables.\<close>

definition delete_jobs :: "db \<Rightarrow> uuid option \<Rightarrow> (job \<Rightarrow> bool) \<Rightarrow> db" where
  "delete_jobs d uid wher =
     (let target = (\<lambda>j. jobs_delete_policy uid j \<and> jobs_select_policy uid j \<and> wher j);
          ids = map j_id (filter target (jobs d))
      in d\<lparr>jobs := filter (\<lambda>j. \<not> target j) (jobs d),
           applications := filter (\<lambda>a. a_job_id a \<notin> set ids) (applications d),
           saved_jobs := filter (\<lambda>s. s_job_id s \<notin> set ids) (saved_jobs d)\<rparr>)"

definition select_applications ::
  "db \<Rightarrow> uuid option \<Rightarrow> (application \<Rightarrow> bool) \<Rightarrow> application list" where
  "select_applications d uid wher =
     filter (\<lambda>a. applications_select_policy d uid a \<and> wher a) (applications d)"

definition insert_application ::
  "db \<Rightarrow> uuid option \<Rightarrow> timestamp \<Rightarrow> uuid \<Rightarrow> application_insert \<Rightarrow> pg_error + db" where
  "insert_application d uid now gen i =
     (let row = applications_row now gen i
      in if \<not> applications_insert_policy d uid row then Inl Insufficient_privilege
         else if a_id row \<in> set (map a_id (applications d)) \<or>
                 (a_job_id row, a_applicant_id row)
                   \<in> set (map (\<lambda>a. (a_job_id a, a_applicant_id a)) (applications d))
         then Inl Unique_violation
         else if a_job_id row \<notin> set (map j_id (jobs d)) \<or>
                 a_applicant_id row \<notin> set (map p_id (profiles d))
         then Inl Foreign_key_violation
         else Inr (d\<lparr>applications := applications d @ [row]\<rparr>))"

definition update_applications ::
  "db \<Rightarrow> uuid option \<Rightarrow> timestamp \<Rightarrow> (application \<Rightarrow> bool) \<Rightarrow> (application \<Rightarrow> application)
     \<Rightarrow> pg_error + db" where
  "update_applications d uid now wher setf =
     (let target = (\<lambda>a. applications_update_policy d uid a \<and>
                         applications_select_policy d uid a \<and> wher a);
          new = (\<lambda>a. update_applications_updated_at now (setf a));
          d' = d\<lparr>applications := map (\<lambda>a. if target a then new a else a) (applications d)\<rparr>
      in if \<exists>a \<in> set (applications d). target a \<and> \<not> applications_update_policy d uid (new a)
         then Inl Insufficient_privilege
         else if \<not> unique_ok d' then Inl Unique_violation
         else if \<not> fk_ok d' then Inl Foreign_key_violation
         else Inr d')"

definition select_saved_jobs :: "db \<Rightarrow> uuid option \<Rightarrow> (saved_job \<Rightarrow> bool) \<Rightarrow> saved_job list" where
  "select_saved_jobs d uid wher =
     filter (\<lambda>s. saved_jobs_select_policy uid s \<and> wher s) (saved_jobs d)"

definition insert_saved_job ::
  "db \<Rightarrow> uuid option \<Rightarrow> timestamp \<Rightarrow> uuid \<Rightarrow> saved_job_insert \<Rightarrow> pg_error + db" where
  "insert_saved_job d uid now gen i =
     (let row = saved_jobs_row now gen i
      in if \<not> saved_jobs_insert_policy uid row then Inl Insufficient_privilege
         else if s_id row \<in> set (map s_id (saved_jobs d)) \<or>
                 (s_job_id row, s_user_id row)
                   \<in> set (map (\<lambda>s. (s_job_id s, s_user_id s)) (saved_jobs d))
         then Inl Unique_violation
         else if s_job_id row \<notin> set (map j_id (jobs d)) \<or>
                 s_user_id row \<notin> set (map p_id (profiles d))
         then Inl Foreign_key_violation
         else Inr (d\<lparr>saved_jobs := saved_jobs d @ [row]\<rparr>))"

definition delete_saved_jobs :: "db \<Rightarrow> uuid option \<Rightarrow> (saved_job \<Rightarrow> bool) \<Rightarrow> db" where
  "delete_saved_jobs d uid wher =
     (let target = (\<lambda>s. saved_jobs_delete_policy uid s \<and> saved_jobs_select_policy uid s \<and> wher s)
      in d\<lparr>saved_jobs := filter (\<lambda>s. \<not> target s) (saved_jobs d)\<rparr>)"

definition update_profiles ::
  "db \<Rightarrow> uuid option \<Rightarrow> timestamp \<Rightarrow> (profile \<Rightarrow> bool) \<Rightarrow> (profile \<Rightarrow> profile)
     \<Rightarrow> pg_error + db" where
  "update_profiles d uid now wher setf =
     (let target = (\<lambda>p. profiles_update_policy uid p \<and> profiles_select_policy uid p \<and> wher p);
          new = (\<lambda>p. update_profiles_updated_at now (setf p));
          d' = d\<lparr>profiles := map (\<lambda>p. if target p then new p else p) (profiles d)\<rparr>
      in if \<exists>p \<in> set (profiles d). target p \<and> \<not> profiles_update_policy uid (new p)
         then Inl Insufficient_privilege
         else if \<not> unique_ok d' then Inl Unique_violation
         else if \<not> fk_ok d' then Inl Foreign_key_violation
         else Inr d')"

section \<open>Storage (migration \<open>20251106141604\<close>)\<close>

text \<open>\<open>s.split(sep)\<close> of the client, for a separator of one code unit: the segments
  between the separators, always at least one. \<open>string_to_array\<close> of the database
  agrees with it on every non-empty text.\<close>

fun split :: "16 word \<Rightarrow> js_string \<Rightarrow> js_string list" where
  "split sep [] = [[]]"
| "split sep (c # cs) =
     (if c = sep then [] # split sep cs
      else (case split sep cs of [] \<Rightarrow> [[c]] | seg # segs \<Rightarrow> (c # seg) # segs))"

text \<open>\<open>storage.foldername(name)\<close>: the path segments of an object's name without the
  last one, the file name.\<close>

definition foldername :: "sql_text \<Rightarrow> sql_text list" where
  "foldername name = butlast (split (of_char CHR ''/'') name)"

text \<open>The policies for INSERT, UPDATE and DELETE on \<open>storage.objects\<close> and the first
  one for SELECT have one expression:
  \<open>bucket_id = 'resumes' AND auth.uid()::text = (storage.foldername(name))[1]\<close>.\<close>

definition objects_own_policy :: "uuid option \<Rightarrow> storage_object \<Rightarrow> bool" where
  "objects_own_policy uid ob \<longleftrightarrow>
     o_bucket_id ob = str ''resumes'' \<and>
     (case foldername (o_name ob) of [] \<Rightarrow> False | folder # _ \<Rightarrow> uid = Some folder)"

record js_file =
  f_name :: js_string
  f_size :: nat

text \<open>\<open>supabase.storage.from("resumes").upload(name, file, { upsert: true })\<close>: the
  object is written under \<open>name\<close>, replacing the one stored there. The row replaced has
  the bucket and name of the new one, so one evaluation of the policy covers both.\<close>

definition upload :: "db \<Rightarrow> uuid option \<Rightarrow> js_string \<Rightarrow> js_file \<Rightarrow> pg_error + db" where
  "upload d uid name fl =
     (let ob = \<lparr>o_bucket_id = str ''resumes'', o_name = name, o_size = f_size fl\<rparr>
      in if \<not> objects_own_policy uid ob then Inl Insufficient_privilege
         else Inr (d\<lparr>objects :=
                filter (\<lambda>x. \<not> (o_bucket_id x = o_bucket_id ob \<and> o_name x = name)) (objects d)
                @ [ob]\<rparr>))"

section \<open>Client\<close>

text \<open>What a handler shows: \<open>toast.error\<close> with its literal text and, where the source
  appends \<open>error.message\<close>, the error; or \<open>toast.success\<close>.\<close>

datatype toast = Toast_error js_string "pg_error option" | Toast_success js_string

subsection \<open>\<open>JobDetails.tsx\<close>: JobDetails and Jobs\<close>

text \<open>\<open>.single()\<close> fails unless exactly one row comes back.\<close>

definition fetchJobDetails :: "db \<Rightarrow> uuid option \<Rightarrow> uuid \<Rightarrow> toast + job" where
  "fetchJobDetails d user id' =
     (case select_jobs d user (\<lambda>j. j_id j = id') of
        [data] \<Rightarrow> Inr data
      | _ \<Rightarrow> Inl (Toast_error (str ''Failed to load job details'') None))"

definition handleApply ::
  "db \<Rightarrow> timestamp \<Rightarrow> uuid \<Rightarrow> uuid option \<Rightarrow> uuid \<Rightarrow> db \<times> toast \<times> js_string option" where
  "handleApply d now gen user id' =
     (case user of
        None \<Rightarrow> (d, Toast_error (str ''Please sign in to apply'') None, Some (str ''/auth''))
      | Some user_id \<Rightarrow>
          (case insert_application d (Some user_id) now gen
                  \<lparr>ai_id = None, ai_job_id = id', ai_applicant_id = user_id,
                   ai_status = Some Applied, ai_cover_letter = None, ai_resume_url = None,
                   ai_applied_at = None, ai_updated_at = None\<rparr> of
             Inl error \<Rightarrow>
               if code error = str ''23505''
               then (d, Toast_error (str ''You've already applied to this job'') None, None)
               else (d, Toast_error (str ''Failed to submit application'') None, None)
           | Inr d' \<Rightarrow> (d', Toast_success (str ''Application submitted successfully!''), None)))"

text \<open>The listing of the Jobs page, without its ORDER BY.\<close>

definition fetchJobs :: "db \<Rightarrow> uuid option \<Rightarrow> job list" where
  "fetchJobs d user = select_jobs d user (\<lambda>j. j_status j = Open)"

definition toggleSaveJob ::
  "db \<Rightarrow> timestamp \<Rightarrow> uuid \<Rightarrow> uuid option \<Rightarrow> uuid set \<Rightarrow> uuid \<Rightarrow> db \<times> uuid set \<times> toast" where
  "toggleSaveJob d now gen user savedJobIds jobId =
     (case user of
        None \<Rightarrow> (d, savedJobIds, Toast_error (str ''Please sign in to save jobs'') None)
      | Some user_id \<Rightarrow>
          if jobId \<in> savedJobIds
          then (delete_saved_jobs d (Some user_id)
                  (\<lambda>s. s_user_id s = user_id \<and> s_job_id s = jobId),
                savedJobIds - {jobId},
                Toast_success (str ''Job removed from saved''))
          else (case insert_saved_job d (Some user_id) now gen
                       \<lparr>si_id = None, si_job_id = jobId, si_user_id = user_id,
                        si_saved_at = None\<rparr> of
                  Inl error \<Rightarrow>
                    (d, savedJobIds, Toast_error (str ''Failed to save job: '') (Some error))
                | Inr d' \<Rightarrow>
                    (d', insert jobId savedJobIds, Toast_success (str ''Job saved successfully''))))"

subsection \<open>\<open>Applicants.tsx\<close>\<close>

definition updateApplicationStatus ::
  "db \<Rightarrow> timestamp \<Rightarrow> uuid option \<Rightarrow> uuid \<Rightarrow> application_status \<Rightarrow> db \<times> toast" where
  "updateApplicationStatus d now user applicationId newStatus =
     (case update_applications d user now (\<lambda>a. a_id a = applicationId)
             (\<lambda>a. a\<lparr>a_status := newStatus\<rparr>) of
        Inl error \<Rightarrow> (d, Toast_error (str ''Failed to update status'') None)
      | Inr d' \<Rightarrow> (d', Toast_success (str ''Application status updated'')))"

subsection \<open>\<open>part_001\<close>: PostJob\<close>

text \<open>\<open>String.prototype.trim\<close> removes the code units of WhiteSpace and LineTerminator
  from both ends.\<close>

definition isWhiteSpace :: "16 word \<Rightarrow> bool" where
  "isWhiteSpace c \<longleftrightarrow>
     c \<in> {0x0009, 0x000A, 0x000B, 0x000C, 0x000D, 0x0020, 0x00A0, 0x1680, 0x2028, 0x2029,
          0x202F, 0x205F, 0x3000, 0xFEFF} \<or>
     (0x2000 \<le> c \<and> c \<le> 0x200A)"

definition trim :: "js_string \<Rightarrow> js_string" where
  "trim s = rev (dropWhile isWhiteSpace (rev (dropWhile isWhiteSpace s)))"

definition skillsArray :: "js_string \<Rightarrow> js_string list" where
  "skillsArray required_skills =
     filter (\<lambda>s. length s > 0) (map (\<lambda>s. trim s) (split (of_char CHR '','') required_skills))"

record post_job_form =
  fd_title :: js_string
  fd_company_name :: js_string
  fd_description :: js_string
  fd_requirements :: js_string
  fd_location :: js_string
  fd_job_type :: js_string
  fd_salary_min :: js_string
  fd_salary_max :: js_string
  fd_experience_level :: js_string
  fd_required_skills :: js_string

text \<open>\<open>parseInt\<close> is an argument; \<open>None\<close> is NaN, which is sent as null. An empty string
  is falsy.\<close>

definition PostJob_handleSubmit ::
  "db \<Rightarrow> timestamp \<Rightarrow> uuid \<Rightarrow> (js_string \<Rightarrow> int option) \<Rightarrow> uuid option \<Rightarrow> post_job_form
     \<Rightarrow> db \<times> toast \<times> js_string option" where
  "PostJob_handleSubmit d now gen parseInt user formData =
     (case user of
        None \<Rightarrow> (d, Toast_error (str ''Please sign in to post a job'') None, Some (str ''/auth''))
      | Some user_id \<Rightarrow>
          (case insert_job d (Some user_id) now gen
                  \<lparr>ji_id = None,
                   ji_recruiter_id = user_id,
                   ji_title = fd_title formData,
                   ji_description = fd_description formData,
                   ji_company_name = fd_company_name formData,
                   ji_location = fd_location formData,
                   ji_job_type = fd_job_type formData,
                   ji_salary_min =
                     (if fd_salary_min formData \<noteq> [] then parseInt (fd_salary_min formData)
                      else None),
                   ji_salary_max =
                     (if fd_salary_max formData \<noteq> [] then parseInt (fd_salary_max formData)
                      else None),
                   ji_required_skills = skillsArray (fd_required_skills formData),
                   ji_experience_required =
                     (if fd_experience_level formData \<noteq> []
                      then parseInt (fd_experience_level formData) else None),
                   ji_status = None, ji_views_count = None, ji_applications_count = None,
                   ji_created_at = None, ji_updated_at = None\<rparr> of
             Inl error \<Rightarrow> (d, Toast_error (str ''Error'') (Some error), None)
           | Inr d' \<Rightarrow>
               (d', Toast_success (str ''Job posted successfully''), Some (str ''/dashboard''))))"

subsection \<open>\<open>part_001\<close>: Profile\<close>

text \<open>The fields of the form; \<open>pf_experience_years\<close> is what \<open>parseInt\<close> made of the
  field (\<open>None\<close>: NaN).\<close>

record profile_form =
  pf_full_name :: js_string
  pf_phone :: js_string
  pf_location :: js_string
  pf_bio :: js_string
  pf_company_name :: js_string
  pf_experience_years :: "int option"

definition Profile_handleSubmit ::
  "db \<Rightarrow> timestamp \<Rightarrow> uuid option \<Rightarrow> profile option \<Rightarrow> profile_form
     \<Rightarrow> db \<times> profile option \<times> toast option" where
  "Profile_handleSubmit d now user prof formData =
     (case (prof, user) of
        (Some pr, Some user_id) \<Rightarrow>
          (let updates = (\<lambda>p. p\<lparr>
                 p_full_name := pf_full_name formData,
                 p_phone := Some (pf_phone formData),
                 p_location := Some (pf_location formData),
                 p_bio := Some (pf_bio formData),
                 p_company_name :=
                   (if p_role pr = Recruiter then Some (pf_company_name formData) else None),
                 p_experience_years :=
                   (if p_role pr = Job_seeker
                    then (case pf_experience_years formData of
                            None \<Rightarrow> None
                          | Some n \<Rightarrow> if n = 0 then None else Some n)
                    else None),
                 p_skills := p_skills pr\<rparr>)
           in case update_profiles d (Some user_id) now (\<lambda>p. p_id p = user_id) updates of
                Inl error \<Rightarrow>
                  (d, prof, Some (Toast_error (str ''Failed to update profile: '') (Some error)))
              | Inr d' \<Rightarrow>
                  (d', Some (updates pr), Some (Toast_success (str ''Profile updated successfully''))))
      | _ \<Rightarrow> (d, prof, None))"

text \<open>\<open>getPublicUrl\<close> of the storage client is an argument. The file input exists only
  on a page whose profile is loaded, so \<open>prof\<close> is a profile.\<close>

definition handleResumeUpload ::
  "db \<Rightarrow> timestamp \<Rightarrow> (js_string \<Rightarrow> js_string) \<Rightarrow> uuid option \<Rightarrow> profile \<Rightarrow> js_file option
     \<Rightarrow> db \<times> profile \<times> toast option" where
  "handleResumeUpload d now getPublicUrl user prof fl =
     (case (fl, user) of
        (Some fl', Some user_id) \<Rightarrow>
          if f_size fl' > 5 * 1024 * 1024
          then (d, prof, Some (Toast_error (str ''File size must be less than 5MB'') None))
          else
            (let fileExt = last (split (of_char CHR ''.'') (f_name fl'));
                 fileName = user_id @ str ''/resume.'' @ fileExt
             in case upload d (Some user_id) fileName fl' of
                  Inl uploadError \<Rightarrow>
                    (d, prof,
                     Some (Toast_error (str ''Failed to upload resume: '') (Some uploadError)))
                | Inr d1 \<Rightarrow>
                    (let publicUrl = getPublicUrl fileName
                     in case update_profiles d1 (Some user_id) now (\<lambda>p. p_id p = user_id)
                               (\<lambda>p. p\<lparr>p_resume_url := Some publicUrl\<rparr>) of
                          Inl updateError \<Rightarrow>
                            (d1, prof,
                             Some (Toast_error (str ''Failed to upload resume: '')
                                     (Some updateError)))
                        | Inr d2 \<Rightarrow>
                            (d2, prof\<lparr>p_resume_url := Some publicUrl\<rparr>,
                             Some (Toast_success (str ''Resume uploaded successfully'')))))
      | _ \<Rightarrow> (d, prof, None))"

section \<open>Histories\<close>

text \<open>Every statement a caller can send to the data layer, and the stores that sequences
  of them lead to. A statement that fails leaves the store as it was.\<close>

datatype statement =
    Create_identity auth_user
  | Insert_job "uuid option" uuid job_insert
  | Update_jobs "uuid option" "job \<Rightarrow> bool" "job \<Rightarrow> job"
  | Delete_jobs "uuid option" "job \<Rightarrow> bool"
  | Insert_application "uuid option" uuid application_insert
  | Update_applications "uuid option" "application \<Rightarrow> bool" "application \<Rightarrow> application"
  | Insert_saved_job "uuid option" uuid saved_job_insert
  | Delete_saved_jobs "uuid option" "saved_job \<Rightarrow> bool"
  | Update_profiles "uuid option" "profile \<Rightarrow> bool" "profile \<Rightarrow> profile"
  | Upload "uuid option" js_string js_file

fun exec :: "db \<Rightarrow> timestamp \<Rightarrow> statement \<Rightarrow> pg_error + db" where
  "exec d now (Create_identity u) = create_identity d now u"
| "exec d now (Insert_job uid gen i) = insert_job d uid now gen i"
| "exec d now (Update_jobs uid wher setf) = update_jobs d uid now wher setf"
| "exec d now (Delete_jobs uid wher) = Inr (delete_jobs d uid wher)"
| "exec d now (Insert_application uid gen i) = insert_application d uid now gen i"
| "exec d now (Update_applications uid wher setf) = update_applications d uid now wher setf"
| "exec d now (Insert_saved_job uid gen i) = insert_saved_job d uid now gen i"
| "exec d now (Delete_saved_jobs uid wher) = Inr (delete_saved_jobs d uid wher)"
| "exec d now (Update_profiles uid wher setf) = update_profiles d uid now wher setf"
| "exec d now (Upload uid name fl) = upload d uid name fl"

definition commit :: "db \<Rightarrow> pg_error + db \<Rightarrow> db" where
  "commit d r = (case r of Inl e \<Rightarrow> d | Inr d' \<Rightarrow> d')"

fun run :: "db \<Rightarrow> (timestamp \<times> statement) list \<Rightarrow> db" where
  "run d [] = d"
| "run d ((now, st) # sts) = run (commit d (exec d now st)) sts"

text \<open>The operations that the source implements: the creation of an identity with its
  trigger, and the handlers of the pages. Each carries the state of its page and the
  session's user as the handler finds them. Viewing and listing stand for all handlers
  that only read (the dashboard, the analytics and the applicants page read, too).\<close>

datatype action =
    Sign_up auth_user
  | Post_job uuid "js_string \<Rightarrow> int option" "uuid option" post_job_form
  | View_job "uuid option" uuid
  | List_jobs "uuid option"
  | Apply uuid "uuid option" uuid
  | Toggle_save_job uuid "uuid option" "uuid set" uuid
  | Update_application_status "uuid option" uuid application_status
  | Save_profile "uuid option" "profile option" profile_form
  | Upload_resume "js_string \<Rightarrow> js_string" "uuid option" profile "js_file option"

fun perform :: "db \<Rightarrow> timestamp \<Rightarrow> action \<Rightarrow> db" where
  "perform d now (Sign_up u) = commit d (create_identity d now u)"
| "perform d now (Post_job gen parseInt user formData) =
     fst (PostJob_handleSubmit d now gen parseInt user formData)"
| "perform d now (View_job user id') = d"
| "perform d now (List_jobs user) = d"
| "perform d now (Apply gen user id') = fst (handleApply d now gen user id')"
| "perform d now (Toggle_save_job gen user savedJobIds jobId) =
     fst (toggleSaveJob d now gen user savedJobIds jobId)"
| "perform d now (Update_application_status user applicationId newStatus) =
     fst (updateApplicationStatus d now user applicationId newStatus)"
| "perform d now (Save_profile user prof formData) =
     fst (Profile_handleSubmit d now user prof formData)"
| "perform d now (Upload_resume getPublicUrl user prof fl) =
     fst (handleResumeUpload d now getPublicUrl user prof fl)"

fun session :: "db \<Rightarrow> (timestamp \<times> action) list \<Rightarrow> db" where
  "session d [] = d"
| "session d ((now, act) # acts) = session (perform d now act) acts"

text \<open>The applications of one applicant to one job, and the saved-job rows of one user
  for one job.\<close>

definition applications_for :: "db \<Rightarrow> uuid \<Rightarrow> uuid \<Rightarrow> application list" where
  "applications_for d job_id applicant_id =
     filter (\<lambda>a. a_job_id a = job_id \<and> a_applicant_id a = applicant_id) (applications d)"

definition saved_jobs_for :: "db \<Rightarrow> uuid \<Rightarrow> uuid \<Rightarrow> saved_job list" where
  "saved_jobs_for d job_id user_id =
     filter (\<lambda>s. s_job_id s = job_id \<and> s_user_id s = user_id) (saved_jobs d)"

section \<open>An example store\<close>

definition ex_seeker :: profile where
  "ex_seeker = \<lparr>p_id = str ''s1'', p_email = str ''s1@x'', p_full_name = str ''User'',
     p_role = Job_seeker, p_phone = None, p_location = None, p_bio = None,
     p_company_name = None, p_resume_url = None, p_profile_image_url = None, p_skills = None,
     p_experience_years = None, p_created_at = Some 1, p_updated_at = Some 1\<rparr>"

definition ex_recruiter :: profile where
  "ex_recruiter = \<lparr>p_id = str ''r1'', p_email = str ''r1@x'', p_full_name = str ''Rec'',
     p_role = Recruiter, p_phone = None, p_location = None, p_bio = None,
     p_company_name = None, p_resume_url = None, p_profile_image_url = None, p_skills = None,
     p_experience_years = None, p_created_at = Some 2, p_updated_at = Some 3\<rparr>"

definition ex_job :: job where
  "ex_job = \<lparr>j_id = str ''j1'', j_recruiter_id = str ''r1'', j_title = str ''Dev'',
     j_description = str ''Code'', j_company_name = str ''Co'', j_location = str ''Remote'',
     j_job_type = str ''full-time'', j_salary_min = None, j_salary_max = None,
     j_required_skills = [str ''React''], j_experience_required = None, j_status = Open,
     j_views_count = Some 0, j_applications_count = Some 0, j_created_at = Some 4,
     j_updated_at = Some 4\<rparr>"

definition ex_closed_job :: job where
  "ex_closed_job = \<lparr>j_id = str ''j2'', j_recruiter_id = str ''r1'', j_title = str ''Ops'',
     j_description = str ''Run'', j_company_name = str ''Co'', j_location = str ''Pune'',
     j_job_type = str ''contract'', j_salary_min = Some 50000, j_salary_max = None,
     j_required_skills = [], j_experience_required = Some 3, j_status = Closed,
     j_views_count = Some 0, j_applications_count = Some 0, j_created_at = Some 4,
     j_updated_at = Some 6\<rparr>"

definition ex_application :: application where
  "ex_application = \<lparr>a_id = str ''a1'', a_job_id = str ''j1'', a_applicant_id = str ''s1'',
     a_status = Applied, a_cover_letter = None, a_resume_url = None, a_applied_at = Some 5,
     a_updated_at = Some 5\<rparr>"

definition ex_saved_job :: saved_job where
  "ex_saved_job = \<lparr>s_id = str ''v1'', s_job_id = str ''j1'', s_user_id = str ''s1'',
     s_saved_at = Some 5\<rparr>"

definition ex_db :: db where
  "ex_db = \<lparr>auth_users =
       [\<lparr>u_id = str ''s1'', u_email = str ''s1@x'', u_raw_user_meta_data = []\<rparr>,
        \<lparr>u_id = str ''r1'', u_email = str ''r1@x'',
         u_raw_user_meta_data = [(str ''full_name'', str ''Rec'')]\<rparr>],
     profiles = [ex_seeker, ex_recruiter], jobs = [ex_job, ex_closed_job],
     applications = [ex_application], saved_jobs = [ex_saved_job], objects = []\<rparr>"

definition ex_form :: post_job_form where
  "ex_form = \<lparr>fd_title = str ''QA'', fd_company_name = str ''Co'', fd_description = str ''Test'',
     fd_requirements = [], fd_location = str ''Remote'', fd_job_type = str ''full-time'',
     fd_salary_min = [], fd_salary_max = [], fd_experience_level = [],
     fd_required_skills = str ''SQL, Go''\<rparr>"

definition ex_acts :: "(timestamp \<times> action) list" where
  "ex_acts =
     [(10, Post_job (str ''j3'') (\<lambda>s. None) (Some (str ''r1'')) ex_form),
      (11, View_job (Some (str ''s1'')) (str ''j3'')),
      (12, Apply (str ''a2'') (Some (str ''s1'')) (str ''j3'')),
      (13, Update_application_status (Some (str ''r1'')) (str ''a2'') Viewed)]"

definition ex_blank_form :: post_job_form where
  "ex_blank_form = ex_form\<lparr>fd_required_skills := str '' , ,''\<rparr>"



section \<open>Lemmas\<close>

lemmas ex_defs = ex_db_def ex_seeker_def ex_recruiter_def ex_job_def ex_closed_job_def
  ex_application_def ex_saved_job_def

subsection \<open>The unique constraints hold in every reachable store\<close>


lemma length_filter_key_le1:
  "distinct (map f xs) \<Longrightarrow> length (filter (\<lambda>x. f x = k) xs) \<le> Suc 0"
  by (induction xs) (auto simp: filter_empty_conv image_iff)

lemma unique_ok_create_identity:
  "unique_ok d \<Longrightarrow> create_identity d now u = Inr d' \<Longrightarrow> unique_ok d'"
  by (auto simp: create_identity_def handle_new_user_def unique_ok_def Let_def split: if_splits)

lemma unique_ok_insert_job:
  "unique_ok d \<Longrightarrow> insert_job d uid now gen i = Inr d' \<Longrightarrow> unique_ok d'"
  by (auto simp: insert_job_def unique_ok_def Let_def split: if_splits)

lemma unique_ok_update_jobs:
  "update_jobs d uid now wher setf = Inr d' \<Longrightarrow> unique_ok d'"
  by (simp add: update_jobs_def Let_def split: if_splits)

lemma unique_ok_delete_jobs:
  "unique_ok d \<Longrightarrow> unique_ok (delete_jobs d uid wher)"
  by (simp add: delete_jobs_def unique_ok_def Let_def distinct_map_filter)

lemma unique_ok_insert_application:
  "unique_ok d \<Longrightarrow> insert_application d uid now gen i = Inr d' \<Longrightarrow> unique_ok d'"
  by (auto simp: insert_application_def unique_ok_def Let_def split: if_splits)

lemma unique_ok_update_applications:
  "update_applications d uid now wher setf = Inr d' \<Longrightarrow> unique_ok d'"
  by (simp add: update_applications_def Let_def split: if_splits)

lemma unique_ok_insert_saved_job:
  "unique_ok d \<Longrightarrow> insert_saved_job d uid now gen i = Inr d' \<Longrightarrow> unique_ok d'"
  by (auto simp: insert_saved_job_def unique_ok_def Let_def split: if_splits)

lemma unique_ok_delete_saved_jobs:
  "unique_ok d \<Longrightarrow> unique_ok (delete_saved_jobs d uid wher)"
  by (simp add: delete_saved_jobs_def unique_ok_def Let_def distinct_map_filter)

lemma unique_ok_update_profiles:
  "update_profiles d uid now wher setf = Inr d' \<Longrightarrow> unique_ok d'"
  by (simp add: update_profiles_def Let_def split: if_splits)

lemma unique_ok_upload:
  "unique_ok d \<Longrightarrow> upload d uid name fl = Inr d' \<Longrightarrow> unique_ok d'"
  by (auto simp: upload_def unique_ok_def Let_def split: if_splits)

lemma unique_ok_exec:
  "unique_ok d \<Longrightarrow> exec d now st = Inr d' \<Longrightarrow> unique_ok d'"
  by (cases st)
     (auto intro: unique_ok_create_identity unique_ok_insert_job unique_ok_update_jobs
        unique_ok_delete_jobs unique_ok_insert_application unique_ok_update_applications
        unique_ok_insert_saved_job unique_ok_delete_saved_jobs unique_ok_update_profiles
        unique_ok_upload)

lemma unique_ok_commit:
  "unique_ok d \<Longrightarrow> unique_ok (commit d (exec d now st))"
  by (cases "exec d now st") (auto simp: commit_def intro: unique_ok_exec)

lemma unique_ok_run: "unique_ok d \<Longrightarrow> unique_ok (run d sts)"
  by (induction sts arbitrary: d) (auto simp: unique_ok_commit)

lemma unique_ok_empty_db: "unique_ok empty_db"
  by (simp add: unique_ok_def empty_db_def)


lemma applications_for_le1:
  "unique_ok d \<Longrightarrow> length (applications_for d job_id applicant_id) \<le> 1"
proof -
  assume "unique_ok d"
  then have "distinct (map (\<lambda>a. (a_job_id a, a_applicant_id a)) (applications d))"
    by (simp add: unique_ok_def)
  from length_filter_key_le1 [OF this, of "(job_id, applicant_id)"]
  show ?thesis by (simp add: applications_for_def)
qed

lemma code_23505: "code e = str ''23505'' \<longleftrightarrow> e = Unique_violation"
  by (cases e) (simp_all add: str_def)

lemma insert_application_duplicate:
  assumes "a \<in> set (applications d)"
    and "ai_job_id i = a_job_id a" and "ai_applicant_id i = a_applicant_id a"
  shows "insert_application d uid now gen i =
           (if applications_insert_policy d uid (applications_row now gen i)
            then Inl Unique_violation else Inl Insufficient_privilege)"
proof -
  have "(a_job_id (applications_row now gen i), a_applicant_id (applications_row now gen i))
          \<in> set (map (\<lambda>a. (a_job_id a, a_applicant_id a)) (applications d))"
    using assms by (force simp: applications_row_def)
  then show ?thesis by (simp add: insert_application_def Let_def)
qed

subsection \<open>The foreign keys hold in every reachable store\<close>

lemma fk_ok_empty_db: "fk_ok empty_db"
  by (simp add: fk_ok_def empty_db_def)

lemma fk_ok_create_identity:
  "fk_ok d \<Longrightarrow> create_identity d now u = Inr d' \<Longrightarrow> fk_ok d'"
  by (auto simp: create_identity_def handle_new_user_def fk_ok_def Let_def split: if_splits)

lemma fk_ok_insert_job:
  "fk_ok d \<Longrightarrow> insert_job d uid now gen i = Inr d' \<Longrightarrow> fk_ok d'"
  by (auto simp: insert_job_def fk_ok_def Let_def split: if_splits)

lemma fk_ok_update_jobs:
  "update_jobs d uid now wher setf = Inr d' \<Longrightarrow> fk_ok d'"
  by (simp add: update_jobs_def Let_def split: if_splits)

lemma fk_ok_delete_jobs:
  "fk_ok d \<Longrightarrow> fk_ok (delete_jobs d uid wher)"
  unfolding fk_ok_def delete_jobs_def Let_def
  by (simp add: image_iff) blast

lemma fk_ok_insert_application:
  "fk_ok d \<Longrightarrow> insert_application d uid now gen i = Inr d' \<Longrightarrow> fk_ok d'"
  by (auto simp: insert_application_def fk_ok_def Let_def split: if_splits)

lemma fk_ok_update_applications:
  "update_applications d uid now wher setf = Inr d' \<Longrightarrow> fk_ok d'"
  by (simp add: update_applications_def Let_def split: if_splits)

lemma fk_ok_insert_saved_job:
  "fk_ok d \<Longrightarrow> insert_saved_job d uid now gen i = Inr d' \<Longrightarrow> fk_ok d'"
  by (auto simp: insert_saved_job_def fk_ok_def Let_def split: if_splits)

lemma fk_ok_delete_saved_jobs:
  "fk_ok d \<Longrightarrow> fk_ok (delete_saved_jobs d uid wher)"
  by (simp add: delete_saved_jobs_def fk_ok_def Let_def)

lemma fk_ok_update_profiles:
  "update_profiles d uid now wher setf = Inr d' \<Longrightarrow> fk_ok d'"
  by (simp add: update_profiles_def Let_def split: if_splits)

lemma fk_ok_upload:
  "fk_ok d \<Longrightarrow> upload d uid name fl = Inr d' \<Longrightarrow> fk_ok d'"
  by (auto simp: upload_def fk_ok_def Let_def split: if_splits)

lemma fk_ok_exec:
  "fk_ok d \<Longrightarrow> exec d now st = Inr d' \<Longrightarrow> fk_ok d'"
  by (cases st)
     (auto intro: fk_ok_create_identity fk_ok_insert_job fk_ok_update_jobs
        fk_ok_delete_jobs fk_ok_insert_application fk_ok_update_applications
        fk_ok_insert_saved_job fk_ok_delete_saved_jobs fk_ok_update_profiles
        fk_ok_upload)

lemma fk_ok_commit:
  "fk_ok d \<Longrightarrow> fk_ok (commit d (exec d now st))"
  by (cases "exec d now st") (auto simp: commit_def intro: fk_ok_exec)

lemma fk_ok_run: "fk_ok d \<Longrightarrow> fk_ok (run d sts)"
  by (induction sts arbitrary: d) (auto simp: fk_ok_commit)

lemma filter_key_singleton:
  "distinct (map f xs) \<Longrightarrow> x \<in> set xs \<Longrightarrow> filter (\<lambda>y. f y = f x) xs = [x]"
  by (induction xs) (auto simp: filter_empty_conv image_iff)

lemma filter_key_absent:
  "k \<notin> set (map f xs) \<Longrightarrow> filter (\<lambda>y. f y = k) xs = []"
  by (auto simp: filter_empty_conv)

lemma ex_db_consistent: "unique_ok ex_db \<and> fk_ok ex_db"
  by (simp add: unique_ok_def fk_ok_def ex_defs str_def)

lemma ex_db_no_s2: "str ''s2'' \<notin> set (map u_id (auth_users ex_db))"
  by (simp add: ex_db_def str_def)

subsection \<open>Reading jobs\<close>

lemma fetchJobDetails_Inr:
  "fetchJobDetails d uid id' = Inr j \<Longrightarrow> j \<in> set (select_jobs d uid (\<lambda>j. j_id j = id'))"
  by (auto simp: fetchJobDetails_def split: list.splits)

lemma fetchJobDetails_owner:
  assumes "unique_ok d" and "j \<in> set (jobs d)"
  shows "fetchJobDetails d (Some (j_recruiter_id j)) (j_id j) = Inr j"
proof -
  have "distinct (map j_id (jobs d))" using assms(1) by (simp add: unique_ok_def)
  from filter_key_singleton [OF this assms(2)]
  have one: "filter (\<lambda>y. j_id y = j_id j) (jobs d) = [j]" .
  have "select_jobs d (Some (j_recruiter_id j)) (\<lambda>x. j_id x = j_id j) =
          filter (jobs_select_policy (Some (j_recruiter_id j)))
            (filter (\<lambda>y. j_id y = j_id j) (jobs d))"
    by (simp add: select_jobs_def conj_commute)
  also have "\<dots> = [j]" by (simp add: one jobs_select_policy_def)
  finally show ?thesis by (simp add: fetchJobDetails_def)
qed

lemma ex_closed_job_facts:
  "j_status ex_closed_job \<noteq> Open" "j_recruiter_id ex_closed_job = str ''r1''"
  "str ''r1'' \<noteq> str ''s1''" "ex_closed_job \<in> set (jobs ex_db)"
  by (simp_all add: ex_closed_job_def ex_db_def str_def)

subsection \<open>Writing jobs\<close>

lemma filter_map_unwritten:
  "(\<And>x. x \<in> set xs \<Longrightarrow> (P (g x) \<longleftrightarrow> P x) \<and> (P x \<longrightarrow> g x = x)) \<Longrightarrow>
   filter P (map g xs) = filter P xs"
  by (induction xs) auto



lemma in_filter_eq:
  "filter P xs = filter P ys \<Longrightarrow> x \<in> set ys \<Longrightarrow> P x \<Longrightarrow> x \<in> set xs"
proof -
  assume eq: "filter P xs = filter P ys" and "x \<in> set ys" and "P x"
  then have "x \<in> set (filter P ys)" by simp
  then have "x \<in> set (filter P xs)" by (simp only: eq)
  then show ?thesis by simp
qed

lemma ex_job_facts:
  "ex_job \<in> set (jobs ex_db)" "j_recruiter_id ex_job = str ''r1''"
  by (simp_all add: ex_job_def ex_db_def)


lemma update_jobs_no_target:
  assumes "unique_ok d" and "fk_ok d" and "\<forall>j \<in> set (jobs d). \<not> jobs_update_policy uid j"
  shows "update_jobs d uid now wher setf = Inr d"
proof -
  have "map (\<lambda>j. if jobs_update_policy uid j \<and> jobs_select_policy uid j \<and> wher j
                  then update_jobs_updated_at now (setf j) else j) (jobs d) = jobs d"
    using assms(3) by (intro map_idI) simp
  then show ?thesis
    using assms by (simp add: update_jobs_def Let_def)
qed

lemma ex_update_jobs_by_seeker:
  "update_jobs ex_db (Some (str ''s1'')) 9 (\<lambda>j. True) (\<lambda>j. j\<lparr>j_status := Closed\<rparr>) = Inr ex_db"
  using ex_db_consistent
  by (intro update_jobs_no_target)
     (simp_all add: jobs_update_policy_def ex_db_def ex_job_def ex_closed_job_def str_def)

lemma ex_delete_jobs_by_seeker:
  "delete_jobs ex_db (Some (str ''s1'')) (\<lambda>j. True) = ex_db"
proof -
  have "jobs ex_db = [ex_job, ex_closed_job]" by (simp add: ex_db_def)
  moreover have "\<not> jobs_delete_policy (Some (str ''s1'')) ex_job"
    "\<not> jobs_delete_policy (Some (str ''s1'')) ex_closed_job"
    by (simp_all add: jobs_delete_policy_def ex_job_def ex_closed_job_def str_def)
  ultimately show ?thesis
    by (simp add: delete_jobs_def Let_def)
qed

subsection \<open>Writing applications\<close>

lemma update_applications_others:
  assumes "update_applications d uid now wher setf = Inr d'"
  shows "filter (\<lambda>a. \<not> applications_update_policy d uid a) (applications d') =
         filter (\<lambda>a. \<not> applications_update_policy d uid a) (applications d)"
proof -
  let ?target = "\<lambda>a. applications_update_policy d uid a \<and>
                      applications_select_policy d uid a \<and> wher a"
  let ?new = "\<lambda>a. update_applications_updated_at now (setf a)"
  from assms have
    chk: "\<forall>a \<in> set (applications d). ?target a \<longrightarrow> applications_update_policy d uid (?new a)"
    and d': "applications d' = map (\<lambda>a. if ?target a then ?new a else a) (applications d)"
    by (auto simp: update_applications_def Let_def split: if_splits)
  show ?thesis
    unfolding d'
    by (rule filter_map_unwritten) (use chk in auto)
qed

lemma unique_ok_applications_map:
  assumes "\<And>x. a_id (g x) = a_id x"
    and "\<And>x. a_job_id (g x) = a_job_id x"
    and "\<And>x. a_applicant_id (g x) = a_applicant_id x"
  shows "unique_ok (d\<lparr>applications := map g (applications d)\<rparr>) = unique_ok d"
    and "fk_ok (d\<lparr>applications := map g (applications d)\<rparr>) = fk_ok d"
  using assms by (simp_all add: unique_ok_def fk_ok_def o_def)

lemma update_applications_by_owner:
  assumes ok: "unique_ok d" "fk_ok d"
    and a: "a \<in> set (applications d)"
    and owner: "applications_update_policy d uid a"
    and keys: "\<And>x. a_id (setf x) = a_id x" "\<And>x. a_job_id (setf x) = a_job_id x"
      "\<And>x. a_applicant_id (setf x) = a_applicant_id x"
  shows "update_applications d uid now (\<lambda>x. a_id x = a_id a) setf =
         Inr (d\<lparr>applications :=
                map (\<lambda>x. if x = a then (setf a)\<lparr>a_updated_at := Some now\<rparr> else x)
                  (applications d)\<rparr>)"
proof -
  let ?target = "\<lambda>x. applications_update_policy d uid x \<and>
                      applications_select_policy d uid x \<and> a_id x = a_id a"
  let ?new = "\<lambda>x. update_applications_updated_at now (setf x)"
  let ?g = "\<lambda>x. if ?target x then ?new x else x"
  have sel: "applications_select_policy d uid a"
    using owner by (simp add: applications_select_policy_def applications_update_policy_def)
  have "distinct (map a_id (applications d))" using ok(1) by (simp add: unique_ok_def)
  then have one: "\<And>x. x \<in> set (applications d) \<Longrightarrow> a_id x = a_id a \<Longrightarrow> x = a"
    using a by (auto simp: distinct_map dest: inj_onD)
  have tgt: "\<And>x. x \<in> set (applications d) \<Longrightarrow> ?target x \<longleftrightarrow> x = a"
    using one owner sel by auto
  have map_eq: "map ?g (applications d) =
      map (\<lambda>x. if x = a then (setf a)\<lparr>a_updated_at := Some now\<rparr> else x) (applications d)"
    by (rule map_cong [OF refl]) (auto simp: tgt update_applications_updated_at_def)
  have new_pol: "\<And>x. applications_update_policy d uid (?new x) =
      applications_update_policy d uid x"
    by (simp add: applications_update_policy_def update_applications_updated_at_def keys)
  have chk: "(\<exists>x \<in> set (applications d). ?target x \<and>
      \<not> applications_update_policy d uid (?new x)) = False"
    by (simp add: new_pol)
  have u: "unique_ok (d\<lparr>applications := map ?g (applications d)\<rparr>) = True"
    using ok(1) by (subst unique_ok_applications_map(1))
      (simp_all add: update_applications_updated_at_def keys)
  have f: "fk_ok (d\<lparr>applications := map ?g (applications d)\<rparr>) = True"
    using ok(2) by (subst unique_ok_applications_map(2))
      (simp_all add: update_applications_updated_at_def keys)
  have "update_applications d uid now (\<lambda>x. a_id x = a_id a) setf =
        Inr (d\<lparr>applications := map ?g (applications d)\<rparr>)"
    by (simp only: update_applications_def Let_def chk u f if_False not_True_eq_False)
  then show ?thesis by (simp only: map_eq)
qed

lemma applications_update_policy_owner:
  "applications_update_policy d uid a \<longleftrightarrow>
     (\<exists>j \<in> set (jobs d). j_id j = a_job_id a \<and> Some (j_recruiter_id j) = uid)"
  by (auto simp: applications_update_policy_def select_jobs_def jobs_select_policy_def
      filter_empty_conv)

lemma ex_application_facts:
  "ex_application \<in> set (applications ex_db)"
  "\<not> applications_update_policy ex_db (Some (str ''s1'')) ex_application"
  "applications_update_policy ex_db (Some (str ''r1'')) ex_application"
  "a_applicant_id ex_application = str ''s1''"
  "applications ex_db = [ex_application]"
  by (simp_all add: applications_update_policy_owner ex_defs str_def)

subsection \<open>Saved jobs\<close>

lemma insert_saved_job_duplicate:
  assumes "s \<in> set (saved_jobs d)"
    and "si_job_id i = s_job_id s" and "si_user_id i = s_user_id s"
  shows "insert_saved_job d uid now gen i =
           (if uid = Some (s_user_id s) then Inl Unique_violation else Inl Insufficient_privilege)"
proof -
  have "(s_job_id (saved_jobs_row now gen i), s_user_id (saved_jobs_row now gen i))
          \<in> set (map (\<lambda>s. (s_job_id s, s_user_id s)) (saved_jobs d))"
    using assms by (force simp: saved_jobs_row_def)
  then show ?thesis
    using assms by (auto simp: insert_saved_job_def Let_def saved_jobs_insert_policy_def
        saved_jobs_row_def)
qed

lemma insert_saved_job_new:
  assumes "saved_jobs_for d job_id user_id = []"
    and "gen \<notin> set (map s_id (saved_jobs d))"
    and "job_id \<in> set (map j_id (jobs d))" and "user_id \<in> set (map p_id (profiles d))"
  shows "insert_saved_job d (Some user_id) now gen
           \<lparr>si_id = None, si_job_id = job_id, si_user_id = user_id, si_saved_at = None\<rparr> =
         Inr (d\<lparr>saved_jobs := saved_jobs d @
                [\<lparr>s_id = gen, s_job_id = job_id, s_user_id = user_id, s_saved_at = Some now\<rparr>]\<rparr>)"
proof -
  have "(job_id, user_id) \<notin> set (map (\<lambda>s. (s_job_id s, s_user_id s)) (saved_jobs d))"
    using assms(1) by (auto simp: saved_jobs_for_def filter_empty_conv)
  then show ?thesis
    using assms(2-4)
    by (simp add: insert_saved_job_def Let_def saved_jobs_insert_policy_def
        saved_jobs_row_def dflt_def)
qed

lemma delete_saved_job_added:
  assumes "saved_jobs_for d job_id user_id = []"
  shows "delete_saved_jobs
           (d\<lparr>saved_jobs := saved_jobs d @
                [\<lparr>s_id = gen, s_job_id = job_id, s_user_id = user_id, s_saved_at = at\<rparr>]\<rparr>)
           (Some user_id) (\<lambda>s. s_user_id s = user_id \<and> s_job_id s = job_id) = d"
proof -
  have "filter (\<lambda>s. \<not> (saved_jobs_delete_policy (Some user_id) s \<and>
            saved_jobs_select_policy (Some user_id) s \<and>
            s_user_id s = user_id \<and> s_job_id s = job_id)) (saved_jobs d) = saved_jobs d"
    using assms by (auto simp: saved_jobs_for_def filter_empty_conv filter_id_conv)
  then show ?thesis
    by (simp add: delete_saved_jobs_def Let_def saved_jobs_delete_policy_def
        saved_jobs_select_policy_def)
qed

lemma ex_saved_facts:
  "saved_jobs_for ex_db (str ''j2'') (str ''r1'') = []"
  "str ''v2'' \<notin> set (map s_id (saved_jobs ex_db))"
  "str ''j2'' \<in> set (map j_id (jobs ex_db))"
  "str ''r1'' \<in> set (map p_id (profiles ex_db))"
  by (simp_all add: saved_jobs_for_def ex_defs str_def)

subsection \<open>Deleting jobs\<close>

lemma ex_delete_job_by_owner:
  "delete_jobs ex_db (Some (str ''r1'')) (\<lambda>j. j_id j = str ''j1'') =
     ex_db\<lparr>jobs := [ex_closed_job], applications := [], saved_jobs := []\<rparr>"
  by (simp add: delete_jobs_def Let_def jobs_delete_policy_def jobs_select_policy_def
      ex_defs str_def)

lemma ex_job_id: "j_id ex_job = str ''j1''"
  by (simp add: ex_job_def)

subsection \<open>What the handlers do to the jobs table\<close>

lemma jobs_create_identity: "create_identity d now u = Inr d' \<Longrightarrow> jobs d' = jobs d"
  by (auto simp: create_identity_def handle_new_user_def Let_def split: if_splits)

lemma jobs_insert_application:
  "insert_application d uid now gen i = Inr d' \<Longrightarrow> jobs d' = jobs d"
  by (auto simp: insert_application_def Let_def split: if_splits)

lemma jobs_update_applications:
  "update_applications d uid now wher setf = Inr d' \<Longrightarrow> jobs d' = jobs d"
  by (auto simp: update_applications_def Let_def split: if_splits)

lemma jobs_insert_saved_job:
  "insert_saved_job d uid now gen i = Inr d' \<Longrightarrow> jobs d' = jobs d"
  by (auto simp: insert_saved_job_def Let_def split: if_splits)

lemma jobs_delete_saved_jobs: "jobs (delete_saved_jobs d uid wher) = jobs d"
  by (simp add: delete_saved_jobs_def Let_def)

lemma jobs_update_profiles:
  "update_profiles d uid now wher setf = Inr d' \<Longrightarrow> jobs d' = jobs d"
  by (auto simp: update_profiles_def Let_def split: if_splits)

lemma jobs_upload: "upload d uid name fl = Inr d' \<Longrightarrow> jobs d' = jobs d"
  by (auto simp: upload_def Let_def split: if_splits)

lemma jobs_insert_job:
  "insert_job d uid now gen i = Inr d' \<Longrightarrow> jobs d' = jobs d @ [jobs_row now gen i]"
  by (auto simp: insert_job_def Let_def split: if_splits)

lemma jobs_commit:
  "(\<And>d'. r = Inr d' \<Longrightarrow> jobs d' = jobs d) \<Longrightarrow> jobs (commit d r) = jobs d"
  by (cases r) (simp_all add: commit_def)

lemma jobs_handleApply: "jobs (fst (handleApply d now gen user id')) = jobs d"
proof (cases user)
  case None
  then show ?thesis by (simp add: handleApply_def)
next
  case (Some user_id)
  show ?thesis
  proof (cases "insert_application d (Some user_id) now gen
                  \<lparr>ai_id = None, ai_job_id = id', ai_applicant_id = user_id,
                   ai_status = Some Applied, ai_cover_letter = None, ai_resume_url = None,
                   ai_applied_at = None, ai_updated_at = None\<rparr>")
    case (Inl e)
    then show ?thesis by (simp add: handleApply_def Some)
  next
    case (Inr d')
    then show ?thesis by (simp add: handleApply_def Some jobs_insert_application [OF Inr])
  qed
qed

lemma jobs_toggleSaveJob: "jobs (fst (toggleSaveJob d now gen user savedJobIds jobId)) = jobs d"
proof (cases user)
  case None
  then show ?thesis by (simp add: toggleSaveJob_def)
next
  case (Some user_id)
  show ?thesis
  proof (cases "insert_saved_job d (Some user_id) now gen
                  \<lparr>si_id = None, si_job_id = jobId, si_user_id = user_id, si_saved_at = None\<rparr>")
    case (Inl e)
    then show ?thesis by (simp add: toggleSaveJob_def Some jobs_delete_saved_jobs)
  next
    case (Inr d')
    then show ?thesis
      by (simp add: toggleSaveJob_def Some jobs_delete_saved_jobs jobs_insert_saved_job [OF Inr])
  qed
qed

lemma jobs_updateApplicationStatus:
  "jobs (fst (updateApplicationStatus d now user applicationId newStatus)) = jobs d"
proof (cases "update_applications d user now (\<lambda>a. a_id a = applicationId)
                (\<lambda>a. a\<lparr>a_status := newStatus\<rparr>)")
  case (Inl e)
  then show ?thesis by (simp add: updateApplicationStatus_def)
next
  case (Inr d')
  then show ?thesis by (simp add: updateApplicationStatus_def jobs_update_applications [OF Inr])
qed

lemma fst_case_sum:
  "fst (case r of Inl e \<Rightarrow> f e | Inr x \<Rightarrow> g x) = (case r of Inl e \<Rightarrow> fst (f e) | Inr x \<Rightarrow> fst (g x))"
  by (cases r) simp_all

lemma jobs_case_sum:
  "(\<And>e. r = Inl e \<Longrightarrow> jobs (f e) = js) \<Longrightarrow> (\<And>x. r = Inr x \<Longrightarrow> jobs (g x) = js) \<Longrightarrow>
   jobs (case r of Inl e \<Rightarrow> f e | Inr x \<Rightarrow> g x) = js"
  by (cases r) simp_all

lemma jobs_Profile_handleSubmit:
  "jobs (fst (Profile_handleSubmit d now user prof formData)) = jobs d"
proof (cases prof)
  case None
  then show ?thesis by (simp add: Profile_handleSubmit_def)
next
  case pr: (Some pr)
  show ?thesis
  proof (cases user)
    case None
    then show ?thesis by (simp add: Profile_handleSubmit_def pr)
  next
    case (Some user_id)
    show ?thesis
      unfolding Profile_handleSubmit_def pr Some Let_def
      by (simp only: fst_case_sum option.case prod.case fst_conv)
         (rule jobs_case_sum, simp, simp add: jobs_update_profiles)
  qed
qed

lemma jobs_handleResumeUpload:
  "jobs (fst (handleResumeUpload d now getPublicUrl user prof fl)) = jobs d"
proof (cases fl)
  case None
  then show ?thesis by (simp add: handleResumeUpload_def)
next
  case fl': (Some fl')
  show ?thesis
  proof (cases user)
    case None
    then show ?thesis by (simp add: handleResumeUpload_def fl')
  next
    case (Some user_id)
    show ?thesis
    proof (cases "f_size fl' > 5 * 1024 * 1024")
      case True
      then show ?thesis by (simp add: handleResumeUpload_def fl' Some)
    next
      case False
      have "jobs (fst (handleResumeUpload d now getPublicUrl (Some user_id) prof (Some fl'))) =
            jobs d"
        unfolding handleResumeUpload_def Let_def
        using False
        apply (simp only: fst_case_sum option.case prod.case fst_conv if_False)
        apply (rule jobs_case_sum, simp)
        apply (rule jobs_case_sum)
         apply (simp add: jobs_upload)
        apply (simp add: jobs_upload jobs_update_profiles)
        done
      then show ?thesis by (simp only: fl' Some)
    qed
  qed
qed

lemma jobs_PostJob_handleSubmit:
  "jobs (fst (PostJob_handleSubmit d now gen parseInt user formData)) = jobs d \<or>
   (\<exists>row. jobs (fst (PostJob_handleSubmit d now gen parseInt user formData)) = jobs d @ [row] \<and>
      j_views_count row = Some 0 \<and> j_applications_count row = Some 0)"
proof (cases user)
  case None
  then show ?thesis by (simp add: PostJob_handleSubmit_def)
next
  case (Some user_id)
  let ?i = "\<lparr>ji_id = None,
                   ji_recruiter_id = user_id,
                   ji_title = fd_title formData,
                   ji_description = fd_description formData,
                   ji_company_name = fd_company_name formData,
                   ji_location = fd_location formData,
                   ji_job_type = fd_job_type formData,
                   ji_salary_min =
                     (if fd_salary_min formData \<noteq> [] then parseInt (fd_salary_min formData)
                      else None),
                   ji_salary_max =
                     (if fd_salary_max formData \<noteq> [] then parseInt (fd_salary_max formData)
                      else None),
                   ji_required_skills = skillsArray (fd_required_skills formData),
                   ji_experience_required =
                     (if fd_experience_level formData \<noteq> []
                      then parseInt (fd_experience_level formData) else None),
                   ji_status = None, ji_views_count = None, ji_applications_count = None,
                   ji_created_at = None, ji_updated_at = None\<rparr>"
  have zero: "j_views_count (jobs_row now gen ?i) = Some 0"
    "j_applications_count (jobs_row now gen ?i) = Some 0"
    by (simp_all add: jobs_row_def dflt_def)
  show ?thesis
  proof (cases "insert_job d (Some user_id) now gen ?i")
    case (Inl e)
    then show ?thesis by (simp add: PostJob_handleSubmit_def Some)
  next
    case (Inr d')
    from jobs_insert_job [OF Inr] zero
    have "jobs d' = jobs d @ [jobs_row now gen ?i] \<and>
      j_views_count (jobs_row now gen ?i) = Some 0 \<and>
      j_applications_count (jobs_row now gen ?i) = Some 0" by simp
    then have "\<exists>row. jobs d' = jobs d @ [row] \<and>
      j_views_count row = Some 0 \<and> j_applications_count row = Some 0" by blast
    then show ?thesis by (simp add: PostJob_handleSubmit_def Some Inr)
  qed
qed

lemma jobs_perform:
  "jobs (perform d now act) = jobs d \<or>
   (\<exists>row. jobs (perform d now act) = jobs d @ [row] \<and>
      j_views_count row = Some 0 \<and> j_applications_count row = Some 0)"
proof (cases act)
  case (Sign_up u)
  then show ?thesis
    by (cases "create_identity d now u") (simp_all add: commit_def jobs_create_identity)
next
  case (Post_job gen parseInt user formData)
  then show ?thesis using jobs_PostJob_handleSubmit [of d now gen parseInt user formData] by simp
qed (simp_all add: jobs_handleApply jobs_toggleSaveJob jobs_updateApplicationStatus
    jobs_Profile_handleSubmit jobs_handleResumeUpload)

lemma jobs_session:
  "\<exists>new. jobs (session d acts) = jobs d @ new \<and>
     (\<forall>j \<in> set new. j_views_count j = Some 0 \<and> j_applications_count j = Some 0)"
proof (induction acts arbitrary: d)
  case Nil
  then show ?case by simp
next
  case (Cons x acts)
  obtain now act where x: "x = (now, act)" by (cases x)
  from Cons.IH [of "perform d now act"] obtain new where
    new: "jobs (session (perform d now act) acts) = jobs (perform d now act) @ new"
      "\<forall>j \<in> set new. j_views_count j = Some 0 \<and> j_applications_count j = Some 0"
    by blast
  from jobs_perform [of d now act] show ?case
  proof
    assume "jobs (perform d now act) = jobs d"
    with new show ?thesis by (auto simp: x)
  next
    assume "\<exists>row. jobs (perform d now act) = jobs d @ [row] \<and>
      j_views_count row = Some 0 \<and> j_applications_count row = Some 0"
    then obtain row where "jobs (perform d now act) = jobs d @ [row]"
      "j_views_count row = Some 0" "j_applications_count row = Some 0" by blast
    with new have "jobs (session d (x # acts)) = jobs d @ (row # new) \<and>
      (\<forall>j \<in> set (row # new). j_views_count j = Some 0 \<and> j_applications_count j = Some 0)"
      by (simp add: x)
    then show ?thesis by blast
  qed
qed

lemma ex_post_job:
  "perform ex_db 10 (Post_job (str ''j3'') (\<lambda>s. None) (Some (str ''r1'')) ex_form) =
     ex_db\<lparr>jobs := jobs ex_db @
       [\<lparr>j_id = str ''j3'', j_recruiter_id = str ''r1'', j_title = str ''QA'',
         j_description = str ''Test'', j_company_name = str ''Co'', j_location = str ''Remote'',
         j_job_type = str ''full-time'', j_salary_min = None, j_salary_max = None,
         j_required_skills = skillsArray (str ''SQL, Go''), j_experience_required = None,
         j_status = Open, j_views_count = Some 0, j_applications_count = Some 0,
         j_created_at = Some 10, j_updated_at = Some 10\<rparr>]\<rparr>"
  by (simp add: PostJob_handleSubmit_def insert_job_def Let_def jobs_row_def dflt_def
      jobs_insert_policy_def select_profiles_def profiles_select_policy_def ex_form_def
      ex_defs str_def)

lemma ex_counters_zero:
  "\<forall>j \<in> set (jobs ex_db). j_views_count j = Some 0 \<and> j_applications_count j = Some 0"
  "length (jobs ex_db) = 2"
  by (simp_all add: ex_defs)

subsection \<open>The skills parser\<close>

lemma split_not_Nil: "split sep s \<noteq> []"
  by (induction s) (auto split: list.splits)

lemma set_split: "seg \<in> set (split sep s) \<Longrightarrow> set seg \<subseteq> set s - {sep}"
proof (induction s arbitrary: seg)
  case Nil
  then show ?case by simp
next
  case (Cons c cs)
  show ?case
  proof (cases "c = sep")
    case True
    with Cons show ?thesis by auto
  next
    case False
    obtain seg0 segs where sp: "split sep cs = seg0 # segs"
      using split_not_Nil [of sep cs] by (cases "split sep cs") auto
    from Cons.prems False sp have "seg = c # seg0 \<or> seg \<in> set segs" by simp
    then show ?thesis
    proof
      assume "seg = c # seg0"
      moreover have "set seg0 \<subseteq> set cs - {sep}" using Cons.IH [of seg0] sp by simp
      ultimately show ?thesis using False by auto
    next
      assume "seg \<in> set segs"
      then have "set seg \<subseteq> set cs - {sep}" using Cons.IH [of seg] sp by simp
      then show ?thesis by auto
    qed
  qed
qed

lemma last_dropWhile: "dropWhile P xs \<noteq> [] \<Longrightarrow> last (dropWhile P xs) = last xs"
  by (induction xs) (auto split: if_splits)

lemma trim_ends:
  assumes "trim s \<noteq> []"
  shows "\<not> isWhiteSpace (hd (trim s))" and "\<not> isWhiteSpace (last (trim s))"
proof -
  let ?y = "dropWhile isWhiteSpace s"
  let ?z = "dropWhile isWhiteSpace (rev ?y)"
  from assms have z: "?z \<noteq> []" by (simp add: trim_def)
  have y: "?y \<noteq> []"
  proof
    assume "?y = []"
    then have "?z = []" by (simp only: rev.simps dropWhile.simps)
    with z show False by simp
  qed
  have "last (trim s) = hd ?z" using z by (simp add: trim_def last_rev)
  moreover have "\<not> isWhiteSpace (hd ?z)" using z by (rule hd_dropWhile)
  ultimately show "\<not> isWhiteSpace (last (trim s))" by simp
  have "hd (trim s) = last ?z" using z by (simp add: trim_def hd_rev)
  also have "\<dots> = last (rev ?y)" using z by (rule last_dropWhile)
  also have "\<dots> = hd ?y" using y by (simp add: last_rev)
  finally have "hd (trim s) = hd ?y" .
  moreover have "\<not> isWhiteSpace (hd ?y)" using y by (rule hd_dropWhile)
  ultimately show "\<not> isWhiteSpace (hd (trim s))" by simp
qed

lemma trim_all_whitespace: "\<forall>c \<in> set s. isWhiteSpace c \<Longrightarrow> trim s = []"
proof -
  assume "\<forall>c \<in> set s. isWhiteSpace c"
  then have "dropWhile isWhiteSpace s = []" by simp
  then show ?thesis by (simp only: trim_def rev.simps dropWhile.simps)
qed

lemma skillsArray_blank:
  assumes "\<forall>c \<in> set s. c = of_char CHR '','' \<or> isWhiteSpace c"
  shows "skillsArray s = []"
proof -
  have "trim seg = []" if "seg \<in> set (split (of_char CHR '','') s)" for seg
  proof -
    from set_split [OF that] assms have "\<forall>c \<in> set seg. isWhiteSpace c" by blast
    then show ?thesis by (rule trim_all_whitespace)
  qed
  then show ?thesis by (auto simp: skillsArray_def filter_empty_conv)
qed

lemma ex_skills:
  "skillsArray (str '' React,, Node.js , '') = [str ''React'', str ''Node.js'']"
  "skillsArray (str '' , ,'') = []"
  by (simp_all add: skillsArray_def trim_def isWhiteSpace_def str_def)

lemma PostJob_handleSubmit_rows:
  "\<exists>rows. jobs (fst (PostJob_handleSubmit d now gen parseInt user formData)) = jobs d @ rows \<and>
     (\<forall>row \<in> set rows. j_required_skills row = skillsArray (fd_required_skills formData))"
proof (cases user)
  case None
  then show ?thesis by (simp add: PostJob_handleSubmit_def)
next
  case (Some user_id)
  let ?i = "\<lparr>ji_id = None,
                   ji_recruiter_id = user_id,
                   ji_title = fd_title formData,
                   ji_description = fd_description formData,
                   ji_company_name = fd_company_name formData,
                   ji_location = fd_location formData,
                   ji_job_type = fd_job_type formData,
                   ji_salary_min =
                     (if fd_salary_min formData \<noteq> [] then parseInt (fd_salary_min formData)
                      else None),
                   ji_salary_max =
                     (if fd_salary_max formData \<noteq> [] then parseInt (fd_salary_max formData)
                      else None),
                   ji_required_skills = skillsArray (fd_required_skills formData),
                   ji_experience_required =
                     (if fd_experience_level formData \<noteq> []
                      then parseInt (fd_experience_level formData) else None),
                   ji_status = None, ji_views_count = None, ji_applications_count = None,
                   ji_created_at = None, ji_updated_at = None\<rparr>"
  have sk: "j_required_skills (jobs_row now gen ?i) = skillsArray (fd_required_skills formData)"
    by (simp add: jobs_row_def)
  show ?thesis
  proof (cases "insert_job d (Some user_id) now gen ?i")
    case (Inl e)
    then show ?thesis by (simp add: PostJob_handleSubmit_def Some)
  next
    case (Inr d')
    from jobs_insert_job [OF Inr] sk
    have "jobs d' = jobs d @ [jobs_row now gen ?i] \<and>
      (\<forall>row \<in> set [jobs_row now gen ?i].
         j_required_skills row = skillsArray (fd_required_skills formData))" by simp
    then have "\<exists>rows. jobs d' = jobs d @ rows \<and>
      (\<forall>row \<in> set rows. j_required_skills row = skillsArray (fd_required_skills formData))"
      by blast
    then show ?thesis by (simp add: PostJob_handleSubmit_def Some Inr)
  qed
qed

lemma ex_blank_chars:
  "\<forall>c \<in> set (str '' , ,''). c = of_char CHR '','' \<or> isWhiteSpace c"
  by (simp add: str_def isWhiteSpace_def)

lemma ex_post_blank_job:
  "jobs (fst (PostJob_handleSubmit ex_db 10 (str ''j3'') (\<lambda>s. None) (Some (str ''r1''))
       ex_blank_form)) =
     jobs ex_db @
       [\<lparr>j_id = str ''j3'', j_recruiter_id = str ''r1'', j_title = str ''QA'',
         j_description = str ''Test'', j_company_name = str ''Co'', j_location = str ''Remote'',
         j_job_type = str ''full-time'', j_salary_min = None, j_salary_max = None,
         j_required_skills = [], j_experience_required = None,
         j_status = Open, j_views_count = Some 0, j_applications_count = Some 0,
         j_created_at = Some 10, j_updated_at = Some 10\<rparr>]"
  by (simp add: PostJob_handleSubmit_def ex_blank_form_def ex_form_def ex_skills)
     (simp add: insert_job_def Let_def jobs_row_def dflt_def
      jobs_insert_policy_def select_profiles_def profiles_select_policy_def
      ex_defs str_def)

subsection \<open>Applying twice\<close>

lemma handleApply_again:
  assumes "handleApply d now gen (Some user_id) id' =
      (d1, Toast_success (str ''Application submitted successfully!''), None)"
  shows "handleApply d1 now' gen' (Some user_id) id' =
      (d1, Toast_error (str ''You've already applied to this job'') None, None)"
proof -
  let ?i = "\<lparr>ai_id = None, ai_job_id = id', ai_applicant_id = user_id,
             ai_status = Some Applied, ai_cover_letter = None, ai_resume_url = None,
             ai_applied_at = None, ai_updated_at = None\<rparr>"
  from assms have ins: "insert_application d (Some user_id) now gen ?i = Inr d1"
    by (cases "insert_application d (Some user_id) now gen ?i")
       (simp_all add: handleApply_def split: if_splits)
  then have pol: "applications_insert_policy d (Some user_id) (applications_row now gen ?i)"
    and d1: "d1 = d\<lparr>applications := applications d @ [applications_row now gen ?i]\<rparr>"
    by (auto simp: insert_application_def Let_def split: if_splits)
  have row: "applications_row now gen ?i \<in> set (applications d1)"
    by (simp add: d1)
  have pol1: "applications_insert_policy d1 (Some user_id) (applications_row now' gen' ?i)"
    using pol by (simp add: d1 applications_insert_policy_def select_profiles_def
        applications_row_def)
  have "insert_application d1 (Some user_id) now' gen' ?i = Inl Unique_violation"
    using insert_application_duplicate [OF row, of ?i "Some user_id" now' gen'] pol1
    by (simp add: applications_row_def)
  then show ?thesis by (simp add: handleApply_def)
qed

subsection \<open>Statements that reach no row\<close>



lemma update_applications_skipped:
  assumes "unique_ok d" and "fk_ok d"
    and "\<forall>x \<in> set (applications d). wher x \<longrightarrow> \<not> applications_update_policy d uid x"
  shows "update_applications d uid now wher setf = Inr d"
proof -
  have "map (\<lambda>a. if applications_update_policy d uid a \<and>
                      applications_select_policy d uid a \<and> wher a
                  then update_applications_updated_at now (setf a) else a) (applications d) =
        applications d"
    using assms(3) by (intro map_idI) auto
  moreover have "\<not> (\<exists>a \<in> set (applications d).
      (applications_update_policy d uid a \<and> applications_select_policy d uid a \<and> wher a) \<and>
      \<not> applications_update_policy d uid (update_applications_updated_at now (setf a)))"
    using assms(3) by auto
  ultimately show ?thesis
    using assms(1,2) by (simp add: update_applications_def Let_def)
qed

lemma updateApplicationStatus_skipped:
  assumes "unique_ok d" and "fk_ok d" and "a \<in> set (applications d)"
    and "\<not> applications_update_policy d uid a"
  shows "updateApplicationStatus d now uid (a_id a) newStatus =
           (d, Toast_success (str ''Application status updated''))"
proof -
  have "distinct (map a_id (applications d))" using assms(1) by (simp add: unique_ok_def)
  then have "\<And>x. x \<in> set (applications d) \<Longrightarrow> a_id x = a_id a \<Longrightarrow> x = a"
    using assms(3) by (auto simp: distinct_map dest: inj_onD)
  then have "\<forall>x \<in> set (applications d). a_id x = a_id a \<longrightarrow>
      \<not> applications_update_policy d uid x"
    using assms(4) by auto
  from update_applications_skipped [OF assms(1,2) this]
  show ?thesis by (simp add: updateApplicationStatus_def)
qed

section \<open>Claims\<close>

text \<open>
  Claim C1. In every store that a sequence of statements leads to, a job and an applicant
  have at most one application. Where a row for the pair exists, an INSERT of the same pair
  fails for every caller, and with the unique violation when the insert policy admits the
  row. The unique violation has code 23505, and \<open>handleApply\<close> shows "already applied"
  for exactly this error, "Failed to submit application" for every other one, and leaves
  the store as it was in both cases. So after an application that \<open>handleApply\<close> has
  submitted, the same user's next \<open>handleApply\<close> for the job shows "already applied".
\<close>

theorem duplicate_application_rejected:
  "length (applications_for (run empty_db sts) job_id applicant_id) \<le> 1 \<and>
   (a \<in> set (applications d) \<and> ai_job_id i = a_job_id a \<and>
    ai_applicant_id i = a_applicant_id a \<longrightarrow>
      (\<exists>e. insert_application d uid now gen i = Inl e) \<and>
      (applications_insert_policy d uid (applications_row now gen i) \<longrightarrow>
         insert_application d uid now gen i = Inl Unique_violation)) \<and>
   code Unique_violation = str ''23505'' \<and>
   handleApply d now gen (Some user_id) id' =
     (case insert_application d (Some user_id) now gen
             \<lparr>ai_id = None, ai_job_id = id', ai_applicant_id = user_id,
              ai_status = Some Applied, ai_cover_letter = None, ai_resume_url = None,
              ai_applied_at = None, ai_updated_at = None\<rparr> of
        Inl e \<Rightarrow>
          (d, Toast_error (if e = Unique_violation then str ''You've already applied to this job''
                           else str ''Failed to submit application'') None, None)
      | Inr d' \<Rightarrow> (d', Toast_success (str ''Application submitted successfully!''), None)) \<and>
   (handleApply d now gen (Some user_id) id' =
      (d1, Toast_success (str ''Application submitted successfully!''), None) \<longrightarrow>
    handleApply d1 now' gen' (Some user_id) id' =
      (d1, Toast_error (str ''You've already applied to this job'') None, None))"
proof (intro conjI impI)
  show "length (applications_for (run empty_db sts) job_id applicant_id) \<le> 1"
    by (rule applications_for_le1) (rule unique_ok_run [OF unique_ok_empty_db])
next
  assume h: "a \<in> set (applications d) \<and> ai_job_id i = a_job_id a \<and>
    ai_applicant_id i = a_applicant_id a"
  then show "\<exists>e. insert_application d uid now gen i = Inl e"
    by (simp add: insert_application_duplicate [of a d i])
  assume "applications_insert_policy d uid (applications_row now gen i)"
  with h show "insert_application d uid now gen i = Inl Unique_violation"
    by (simp add: insert_application_duplicate [of a d i])
next
  show "code Unique_violation = str ''23505''" by simp
next
  show "handleApply d now gen (Some user_id) id' =
     (case insert_application d (Some user_id) now gen
             \<lparr>ai_id = None, ai_job_id = id', ai_applicant_id = user_id,
              ai_status = Some Applied, ai_cover_letter = None, ai_resume_url = None,
              ai_applied_at = None, ai_updated_at = None\<rparr> of
        Inl e \<Rightarrow>
          (d, Toast_error (if e = Unique_violation then str ''You've already applied to this job''
                           else str ''Failed to submit application'') None, None)
      | Inr d' \<Rightarrow> (d', Toast_success (str ''Application submitted successfully!''), None))"
    by (simp add: handleApply_def code_23505 split: sum.splits)
next
  assume "handleApply d now gen (Some user_id) id' =
      (d1, Toast_success (str ''Application submitted successfully!''), None)"
  then show "handleApply d1 now' gen' (Some user_id) id' =
      (d1, Toast_error (str ''You've already applied to this job'') None, None)"
    by (rule handleApply_again)
qed

theorem duplicate_application_rejected_witness:
  "ex_application \<in> set (applications ex_db) \<and>
   applications_insert_policy ex_db (Some (str ''s1''))
     (applications_row 9 (str ''a2'')
        \<lparr>ai_id = None, ai_job_id = str ''j1'', ai_applicant_id = str ''s1'',
         ai_status = Some Applied, ai_cover_letter = None, ai_resume_url = None,
         ai_applied_at = None, ai_updated_at = None\<rparr>) \<and>
   insert_application ex_db (Some (str ''s1'')) 9 (str ''a2'')
        \<lparr>ai_id = None, ai_job_id = str ''j1'', ai_applicant_id = str ''s1'',
         ai_status = Some Applied, ai_cover_letter = None, ai_resume_url = None,
         ai_applied_at = None, ai_updated_at = None\<rparr> = Inl Unique_violation \<and>
   handleApply ex_db 9 (str ''a2'') (Some (str ''s1'')) (str ''j1'') =
     (ex_db, Toast_error (str ''You've already applied to this job'') None, None)"
  using duplicate_application_rejected [of "[]" "str ''j1''" "str ''s1''" ex_application ex_db
      "\<lparr>ai_id = None, ai_job_id = str ''j1'', ai_applicant_id = str ''s1'',
         ai_status = Some Applied, ai_cover_letter = None, ai_resume_url = None,
         ai_applied_at = None, ai_updated_at = None\<rparr>" "Some (str ''s1'')" 9 "str ''a2''"
      "str ''s1''" "str ''j1''"]
  by (simp add: ex_defs applications_insert_policy_def select_profiles_def
      profiles_select_policy_def applications_row_def dflt_def str_def)

text \<open>
  Claim C2. Creating an identity that the auth system does not have yet, in a store whose
  foreign keys hold, succeeds, and afterwards exactly one profile has the identity's id:
  it carries the identity's email, the role job_seeker, and as full name the
  \<open>full_name\<close> of the metadata, or "User" when the metadata has none.
\<close>

theorem new_identity_gets_one_profile:
  "fk_ok d \<and> u_id u \<notin> set (map u_id (auth_users d)) \<longrightarrow>
     (case create_identity d now u of
        Inl e \<Rightarrow> False
      | Inr d' \<Rightarrow>
          auth_users d' = auth_users d @ [u] \<and>
          filter (\<lambda>p. p_id p = u_id u) (profiles d') =
            [\<lparr>p_id = u_id u,
              p_email = u_email u,
              p_full_name =
                (case map_of (u_raw_user_meta_data u) (str ''full_name'') of
                   Some full_name \<Rightarrow> full_name | None \<Rightarrow> str ''User''),
              p_role = Job_seeker,
              p_phone = None, p_location = None, p_bio = None, p_company_name = None,
              p_resume_url = None, p_profile_image_url = None, p_skills = None,
              p_experience_years = None,
              p_created_at = Some now, p_updated_at = Some now\<rparr>])"
proof
  assume h: "fk_ok d \<and> u_id u \<notin> set (map u_id (auth_users d))"
  then have fresh: "u_id u \<notin> set (map p_id (profiles d))"
    by (auto simp: fk_ok_def)
  then have none: "filter (\<lambda>p. p_id p = u_id u) (profiles d) = []"
    by (rule filter_key_absent)
  show "case create_identity d now u of
        Inl e \<Rightarrow> False
      | Inr d' \<Rightarrow>
          auth_users d' = auth_users d @ [u] \<and>
          filter (\<lambda>p. p_id p = u_id u) (profiles d') =
            [\<lparr>p_id = u_id u,
              p_email = u_email u,
              p_full_name =
                (case map_of (u_raw_user_meta_data u) (str ''full_name'') of
                   Some full_name \<Rightarrow> full_name | None \<Rightarrow> str ''User''),
              p_role = Job_seeker,
              p_phone = None, p_location = None, p_bio = None, p_company_name = None,
              p_resume_url = None, p_profile_image_url = None, p_skills = None,
              p_experience_years = None,
              p_created_at = Some now, p_updated_at = Some now\<rparr>]"
    using h fresh none
    by (simp add: create_identity_def handle_new_user_def Let_def coalesce_def)
qed

theorem new_identity_gets_one_profile_witness:
  "fk_ok ex_db \<and>
   str ''s2'' \<notin> set (map u_id (auth_users ex_db)) \<and>
   (case create_identity ex_db 7
           \<lparr>u_id = str ''s2'', u_email = str ''s2@x'', u_raw_user_meta_data = []\<rparr> of
      Inl e \<Rightarrow> False
    | Inr d' \<Rightarrow>
      auth_users d' = auth_users ex_db @
         [\<lparr>u_id = str ''s2'', u_email = str ''s2@x'', u_raw_user_meta_data = []\<rparr>] \<and>
      filter (\<lambda>p. p_id p = str ''s2'') (profiles d') =
        [\<lparr>p_id = str ''s2'', p_email = str ''s2@x'', p_full_name = str ''User'',
          p_role = Job_seeker,
          p_phone = None, p_location = None, p_bio = None, p_company_name = None,
          p_resume_url = None, p_profile_image_url = None, p_skills = None,
          p_experience_years = None, p_created_at = Some 7, p_updated_at = Some 7\<rparr>])"
  using new_identity_gets_one_profile [of ex_db
      "\<lparr>u_id = str ''s2'', u_email = str ''s2@x'', u_raw_user_meta_data = []\<rparr>" 7]
    ex_db_consistent ex_db_no_s2
  by (simp split: sum.splits)

text \<open>
  Claim C3. A SELECT by caller \<open>uid\<close> returns a job exactly when the job is in the table,
  matches the WHERE clause, and is open or has \<open>uid\<close> as its recruiter. So a job that is
  not open is in no result, listing or detail view of anybody but its recruiter (the
  anonymous caller included), and the recruiter reads an own job whatever its status.
\<close>

theorem job_select_open_or_owner:
  "(j \<in> set (select_jobs d uid wher) \<longleftrightarrow>
      j \<in> set (jobs d) \<and> wher j \<and> (j_status j = Open \<or> Some (j_recruiter_id j) = uid)) \<and>
   (j_status j \<noteq> Open \<and> Some (j_recruiter_id j) \<noteq> uid \<longrightarrow>
      j \<notin> set (select_jobs d uid wher) \<and> j \<notin> set (fetchJobs d uid) \<and>
      fetchJobDetails d uid id' \<noteq> Inr j) \<and>
   (j \<in> set (jobs d) \<and> wher j \<longrightarrow> j \<in> set (select_jobs d (Some (j_recruiter_id j)) wher)) \<and>
   (unique_ok d \<and> j \<in> set (jobs d) \<longrightarrow>
      fetchJobDetails d (Some (j_recruiter_id j)) (j_id j) = Inr j)"
proof (intro conjI impI)
  show "j \<in> set (select_jobs d uid wher) \<longleftrightarrow>
      j \<in> set (jobs d) \<and> wher j \<and> (j_status j = Open \<or> Some (j_recruiter_id j) = uid)"
    by (auto simp: select_jobs_def jobs_select_policy_def)
next
  assume h: "j_status j \<noteq> Open \<and> Some (j_recruiter_id j) \<noteq> uid"
  then show a: "j \<notin> set (select_jobs d uid wher)"
    by (simp add: select_jobs_def jobs_select_policy_def)
  from h show "j \<notin> set (fetchJobs d uid)"
    by (simp add: fetchJobs_def select_jobs_def)
  from h show "fetchJobDetails d uid id' \<noteq> Inr j"
    using fetchJobDetails_Inr [of d uid id' j]
    by (auto simp: select_jobs_def jobs_select_policy_def)
next
  assume "j \<in> set (jobs d) \<and> wher j"
  then show "j \<in> set (select_jobs d (Some (j_recruiter_id j)) wher)"
    by (simp add: select_jobs_def jobs_select_policy_def)
next
  assume "unique_ok d \<and> j \<in> set (jobs d)"
  then show "fetchJobDetails d (Some (j_recruiter_id j)) (j_id j) = Inr j"
    by (simp add: fetchJobDetails_owner)
qed

theorem job_select_open_or_owner_witness:
  "j_status ex_closed_job \<noteq> Open \<and>
   Some (j_recruiter_id ex_closed_job) \<noteq> Some (str ''s1'') \<and>
   ex_closed_job \<in> set (jobs ex_db) \<and> unique_ok ex_db \<and>
   ex_closed_job \<notin> set (select_jobs ex_db (Some (str ''s1'')) (\<lambda>j. True)) \<and>
   ex_closed_job \<notin> set (fetchJobs ex_db (Some (str ''s1''))) \<and>
   fetchJobDetails ex_db (Some (str ''s1'')) (str ''j2'') \<noteq> Inr ex_closed_job \<and>
   ex_closed_job \<in> set (select_jobs ex_db (Some (str ''r1'')) (\<lambda>j. True)) \<and>
   fetchJobDetails ex_db (Some (str ''r1'')) (j_id ex_closed_job) = Inr ex_closed_job"
  using job_select_open_or_owner [of ex_closed_job ex_db "Some (str ''s1'')" "\<lambda>j. True" "str ''j2''"]
    ex_closed_job_facts ex_db_consistent
  by simp




text \<open>
  Claim C5, as amended. An UPDATE of applications sent by \<open>uid\<close> reaches an application
  only if \<open>uid\<close> is the recruiter of the job it references. Every other application, the
  applicant's own included, is in the table unchanged afterwards, also after
  \<open>updateApplicationStatus\<close>. The attempt is not refused with an error: the USING policy
  takes the row out of the rows the statement reaches, so a statement whose WHERE clause
  matches only such rows completes, in a store that satisfies its constraints, and leaves
  the store as it was, and \<open>updateApplicationStatus\<close> reports no failure. When the
  recruiter of the job sets the status of an application, the statement succeeds, the row
  gets the new status, and its \<open>updated_at\<close> is the current time whatever value the
  statement assigned to it; no other row changes.
\<close>

theorem application_update_only_by_job_owner:
  "(applications_update_policy d uid a \<longleftrightarrow>
      (\<exists>j \<in> set (jobs d). j_id j = a_job_id a \<and> Some (j_recruiter_id j) = uid)) \<and>
   (update_applications d uid now wher setf = Inr d' \<longrightarrow>
      filter (\<lambda>a. \<not> applications_update_policy d uid a) (applications d') =
      filter (\<lambda>a. \<not> applications_update_policy d uid a) (applications d)) \<and>
   (a \<in> set (applications d) \<and> \<not> applications_update_policy d uid a \<longrightarrow>
      (case update_applications d uid now wher setf of
         Inl e \<Rightarrow> True | Inr d' \<Rightarrow> a \<in> set (applications d')) \<and>
      a \<in> set (applications (fst (updateApplicationStatus d now uid applicationId newStatus)))) \<and>
   (unique_ok d \<and> fk_ok d \<and> a \<in> set (applications d) \<and>
    applications_update_policy d uid a \<longrightarrow>
      update_applications d uid now (\<lambda>x. a_id x = a_id a)
          (\<lambda>x. x\<lparr>a_status := newStatus, a_updated_at := t\<rparr>) =
        Inr (d\<lparr>applications :=
               map (\<lambda>x. if x = a then a\<lparr>a_status := newStatus, a_updated_at := Some now\<rparr>
                         else x) (applications d)\<rparr>) \<and>
      updateApplicationStatus d now uid (a_id a) newStatus =
        (d\<lparr>applications :=
               map (\<lambda>x. if x = a then a\<lparr>a_status := newStatus, a_updated_at := Some now\<rparr>
                         else x) (applications d)\<rparr>,
         Toast_success (str ''Application status updated''))) \<and>
   (unique_ok d \<and> fk_ok d \<and>
    (\<forall>x \<in> set (applications d). wher x \<longrightarrow> \<not> applications_update_policy d uid x) \<longrightarrow>
      update_applications d uid now wher setf = Inr d) \<and>
   (unique_ok d \<and> fk_ok d \<and> a \<in> set (applications d) \<and>
    \<not> applications_update_policy d uid a \<longrightarrow>
      updateApplicationStatus d now uid (a_id a) newStatus =
        (d, Toast_success (str ''Application status updated'')))"
proof (intro conjI impI)
  show "applications_update_policy d uid a \<longleftrightarrow>
      (\<exists>j \<in> set (jobs d). j_id j = a_job_id a \<and> Some (j_recruiter_id j) = uid)"
    by (rule applications_update_policy_owner)
next
  assume "update_applications d uid now wher setf = Inr d'"
  then show "filter (\<lambda>a. \<not> applications_update_policy d uid a) (applications d') =
      filter (\<lambda>a. \<not> applications_update_policy d uid a) (applications d)"
    by (rule update_applications_others)
next
  assume h: "a \<in> set (applications d) \<and> \<not> applications_update_policy d uid a"
  have stays: "a \<in> set (applications d'')"
    if "update_applications d uid now w f = Inr d''" for w f d''
    using in_filter_eq [OF update_applications_others [OF that]] h by simp
  show "case update_applications d uid now wher setf of
         Inl e \<Rightarrow> True | Inr d' \<Rightarrow> a \<in> set (applications d')"
    by (simp add: stays split: sum.splits)
  show "a \<in> set (applications (fst (updateApplicationStatus d now uid applicationId newStatus)))"
    using h by (simp add: updateApplicationStatus_def stays split: sum.splits)
next
  assume h: "unique_ok d \<and> fk_ok d \<and> a \<in> set (applications d) \<and>
    applications_update_policy d uid a"
  then show "update_applications d uid now (\<lambda>x. a_id x = a_id a)
          (\<lambda>x. x\<lparr>a_status := newStatus, a_updated_at := t\<rparr>) =
        Inr (d\<lparr>applications :=
               map (\<lambda>x. if x = a then a\<lparr>a_status := newStatus, a_updated_at := Some now\<rparr>
                         else x) (applications d)\<rparr>)"
    by (simp add: update_applications_by_owner)
  from h show "updateApplicationStatus d now uid (a_id a) newStatus =
        (d\<lparr>applications :=
               map (\<lambda>x. if x = a then a\<lparr>a_status := newStatus, a_updated_at := Some now\<rparr>
                         else x) (applications d)\<rparr>,
         Toast_success (str ''Application status updated''))"
    by (simp add: updateApplicationStatus_def update_applications_by_owner)
next
  assume "unique_ok d \<and> fk_ok d \<and>
    (\<forall>x \<in> set (applications d). wher x \<longrightarrow> \<not> applications_update_policy d uid x)"
  then show "update_applications d uid now wher setf = Inr d"
    by (intro update_applications_skipped) simp_all
next
  assume "unique_ok d \<and> fk_ok d \<and> a \<in> set (applications d) \<and>
    \<not> applications_update_policy d uid a"
  then show "updateApplicationStatus d now uid (a_id a) newStatus =
        (d, Toast_success (str ''Application status updated''))"
    by (intro updateApplicationStatus_skipped) simp_all
qed

theorem application_update_only_by_job_owner_witness:
  "ex_application \<in> set (applications ex_db) \<and>
   \<not> applications_update_policy ex_db (Some (a_applicant_id ex_application)) ex_application \<and>
   ex_application \<in> set (applications (fst (updateApplicationStatus ex_db 9
      (Some (a_applicant_id ex_application)) (str ''a1'') Hired))) \<and>
   updateApplicationStatus ex_db 9 (Some (a_applicant_id ex_application))
      (a_id ex_application) Hired =
     (ex_db, Toast_success (str ''Application status updated'')) \<and>
   unique_ok ex_db \<and> fk_ok ex_db \<and>
   applications_update_policy ex_db (Some (str ''r1'')) ex_application \<and>
   update_applications ex_db (Some (str ''r1'')) 9 (\<lambda>x. a_id x = a_id ex_application)
       (\<lambda>x. x\<lparr>a_status := Shortlisted, a_updated_at := Some 1\<rparr>) =
     Inr (ex_db\<lparr>applications :=
            [ex_application\<lparr>a_status := Shortlisted, a_updated_at := Some 9\<rparr>]\<rparr>)"
  using application_update_only_by_job_owner [of ex_db "Some (str ''s1'')" ex_application 9
      "\<lambda>x. True" "\<lambda>x. x" ex_db "str ''a1''" Hired "Some 1"]
    application_update_only_by_job_owner [of ex_db "Some (str ''r1'')" ex_application 9
      "\<lambda>x. True" "\<lambda>x. x" ex_db "str ''a1''" Shortlisted "Some 1"]
    ex_application_facts ex_db_consistent
  by simp

text \<open>
  The claim as the specification words it has the applicant's own update attempt
  rejected. In the example store \<open>s1\<close> is the applicant of the application \<open>a1\<close> and not
  the recruiter of its job; the status update that \<open>s1\<close> sends for \<open>a1\<close> is not rejected:
  the handler gets no error and shows its success toast, over a store that is as it was.
\<close>

theorem applicant_update_not_rejected:
  "ex_application \<in> set (applications ex_db) \<and>
   a_id ex_application = str ''a1'' \<and> a_applicant_id ex_application = str ''s1'' \<and>
   a_status ex_application = Applied \<and>
   updateApplicationStatus ex_db 9 (Some (str ''s1'')) (str ''a1'') Hired =
     (ex_db, Toast_success (str ''Application status updated''))"
proof -
  have "updateApplicationStatus ex_db 9 (Some (str ''s1'')) (a_id ex_application) Hired =
     (ex_db, Toast_success (str ''Application status updated''))"
    using ex_db_consistent ex_application_facts(1,2)
    by (intro updateApplicationStatus_skipped) simp_all
  moreover have "a_id ex_application = str ''a1''" "a_status ex_application = Applied"
    by (simp_all add: ex_application_def)
  ultimately show ?thesis
    using ex_application_facts by simp
qed

text \<open>
  Claim C6. Let no saved-job row exist for a job and a user (the job and the user's profile
  exist, the generated id is unused). Then the user's insert succeeds and adds one row,
  the user's delete of that pair gives back the store as it was before, so the row is
  absent again; while the row exists, every further insert of the pair by the user fails
  with the unique violation. \<open>toggleSaveJob\<close>, called twice, does this insert and this
  delete and returns to the store and the set of saved ids it started from.
\<close>

theorem saved_job_add_remove:
  "saved_jobs_for d job_id user_id = [] \<and> gen \<notin> set (map s_id (saved_jobs d)) \<and>
   job_id \<in> set (map j_id (jobs d)) \<and> user_id \<in> set (map p_id (profiles d)) \<and>
   d1 = d\<lparr>saved_jobs := saved_jobs d @
           [\<lparr>s_id = gen, s_job_id = job_id, s_user_id = user_id, s_saved_at = Some now\<rparr>]\<rparr> \<longrightarrow>
     insert_saved_job d (Some user_id) now gen
        \<lparr>si_id = None, si_job_id = job_id, si_user_id = user_id, si_saved_at = None\<rparr> = Inr d1 \<and>
     delete_saved_jobs d1 (Some user_id) (\<lambda>s. s_user_id s = user_id \<and> s_job_id s = job_id) = d \<and>
     saved_jobs_for (delete_saved_jobs d1 (Some user_id)
        (\<lambda>s. s_user_id s = user_id \<and> s_job_id s = job_id)) job_id user_id = [] \<and>
     (si_job_id i = job_id \<and> si_user_id i = user_id \<longrightarrow>
        insert_saved_job d1 (Some user_id) now' gen' i = Inl Unique_violation) \<and>
     (jobId = job_id \<and> jobId \<notin> savedJobIds \<longrightarrow>
        toggleSaveJob d now gen (Some user_id) savedJobIds jobId =
          (d1, insert jobId savedJobIds, Toast_success (str ''Job saved successfully'')) \<and>
        toggleSaveJob d1 now' gen' (Some user_id) (insert jobId savedJobIds) jobId =
          (d, savedJobIds, Toast_success (str ''Job removed from saved'')))"
proof (intro impI, elim conjE, intro conjI impI)
  assume none: "saved_jobs_for d job_id user_id = []"
    and gen: "gen \<notin> set (map s_id (saved_jobs d))"
    and fk: "job_id \<in> set (map j_id (jobs d))" "user_id \<in> set (map p_id (profiles d))"
    and d1: "d1 = d\<lparr>saved_jobs := saved_jobs d @
           [\<lparr>s_id = gen, s_job_id = job_id, s_user_id = user_id, s_saved_at = Some now\<rparr>]\<rparr>"
  show ins: "insert_saved_job d (Some user_id) now gen
        \<lparr>si_id = None, si_job_id = job_id, si_user_id = user_id, si_saved_at = None\<rparr> = Inr d1"
    unfolding d1 using none gen fk by (rule insert_saved_job_new)
  show del: "delete_saved_jobs d1 (Some user_id)
      (\<lambda>s. s_user_id s = user_id \<and> s_job_id s = job_id) = d"
    unfolding d1 using none by (rule delete_saved_job_added)
  show "saved_jobs_for (delete_saved_jobs d1 (Some user_id)
        (\<lambda>s. s_user_id s = user_id \<and> s_job_id s = job_id)) job_id user_id = []"
    by (simp only: del none)
  {
    assume "si_job_id i = job_id \<and> si_user_id i = user_id"
    then show "insert_saved_job d1 (Some user_id) now' gen' i = Inl Unique_violation"
      using insert_saved_job_duplicate [of
          "\<lparr>s_id = gen, s_job_id = job_id, s_user_id = user_id, s_saved_at = Some now\<rparr>" d1 i
          "Some user_id" now' gen']
      by (simp add: d1)
  }
  {
    assume h: "jobId = job_id \<and> jobId \<notin> savedJobIds"
    then have j: "jobId = job_id" and n: "job_id \<notin> savedJobIds" by auto
    show "toggleSaveJob d now gen (Some user_id) savedJobIds jobId =
          (d1, insert jobId savedJobIds, Toast_success (str ''Job saved successfully''))"
      unfolding j using n by (simp add: toggleSaveJob_def ins)
    from n have "insert job_id savedJobIds - {job_id} = savedJobIds" by auto
    then show "toggleSaveJob d1 now' gen' (Some user_id) (insert jobId savedJobIds) jobId =
          (d, savedJobIds, Toast_success (str ''Job removed from saved''))"
      unfolding j by (simp add: toggleSaveJob_def del)
  }
qed

theorem saved_job_add_remove_witness:
  "saved_jobs_for ex_db (str ''j2'') (str ''r1'') = [] \<and>
   str ''v2'' \<notin> set (map s_id (saved_jobs ex_db)) \<and>
   str ''j2'' \<in> set (map j_id (jobs ex_db)) \<and>
   str ''r1'' \<in> set (map p_id (profiles ex_db)) \<and>
   insert_saved_job ex_db (Some (str ''r1'')) 8 (str ''v2'')
      \<lparr>si_id = None, si_job_id = str ''j2'', si_user_id = str ''r1'', si_saved_at = None\<rparr> =
     Inr (ex_db\<lparr>saved_jobs := saved_jobs ex_db @
           [\<lparr>s_id = str ''v2'', s_job_id = str ''j2'', s_user_id = str ''r1'',
             s_saved_at = Some 8\<rparr>]\<rparr>) \<and>
   delete_saved_jobs (ex_db\<lparr>saved_jobs := saved_jobs ex_db @
           [\<lparr>s_id = str ''v2'', s_job_id = str ''j2'', s_user_id = str ''r1'',
             s_saved_at = Some 8\<rparr>]\<rparr>) (Some (str ''r1''))
      (\<lambda>s. s_user_id s = str ''r1'' \<and> s_job_id s = str ''j2'') = ex_db \<and>
   insert_saved_job (ex_db\<lparr>saved_jobs := saved_jobs ex_db @
           [\<lparr>s_id = str ''v2'', s_job_id = str ''j2'', s_user_id = str ''r1'',
             s_saved_at = Some 8\<rparr>]\<rparr>) (Some (str ''r1'')) 9 (str ''v3'')
      \<lparr>si_id = None, si_job_id = str ''j2'', si_user_id = str ''r1'', si_saved_at = None\<rparr> =
     Inl Unique_violation \<and>
   toggleSaveJob ex_db 8 (str ''v2'') (Some (str ''r1'')) {} (str ''j2'') =
     (ex_db\<lparr>saved_jobs := saved_jobs ex_db @
           [\<lparr>s_id = str ''v2'', s_job_id = str ''j2'', s_user_id = str ''r1'',
             s_saved_at = Some 8\<rparr>]\<rparr>, {str ''j2''},
      Toast_success (str ''Job saved successfully''))"
  using saved_job_add_remove [of ex_db "str ''j2''" "str ''r1''" "str ''v2''"
      "ex_db\<lparr>saved_jobs := saved_jobs ex_db @
           [\<lparr>s_id = str ''v2'', s_job_id = str ''j2'', s_user_id = str ''r1'',
             s_saved_at = Some 8\<rparr>]\<rparr>" 8
      "\<lparr>si_id = None, si_job_id = str ''j2'', si_user_id = str ''r1'', si_saved_at = None\<rparr>"
      9 "str ''v3''" "str ''j2''" "{}"]
    ex_saved_facts
  by simp

text \<open>
  Claim C7. When the recruiter of a job deletes it, the job is gone from the table, and
  so are all applications and all saved-job rows whose \<open>job_id\<close> is the job's id; with
  unique job ids, no job has that id afterwards.
\<close>

theorem job_delete_cascades:
  "j \<in> set (jobs d) \<and> Some (j_recruiter_id j) = uid \<and> wher j \<longrightarrow>
     j \<notin> set (jobs (delete_jobs d uid wher)) \<and>
     filter (\<lambda>a. a_job_id a = j_id j) (applications (delete_jobs d uid wher)) = [] \<and>
     filter (\<lambda>s. s_job_id s = j_id j) (saved_jobs (delete_jobs d uid wher)) = [] \<and>
     (unique_ok d \<longrightarrow> j_id j \<notin> set (map j_id (jobs (delete_jobs d uid wher))))"
proof (intro impI, elim conjE)
  assume j: "j \<in> set (jobs d)" and owner: "Some (j_recruiter_id j) = uid" and w: "wher j"
  let ?target = "\<lambda>j. jobs_delete_policy uid j \<and> jobs_select_policy uid j \<and> wher j"
  have t: "?target j"
    using owner w by (simp add: jobs_delete_policy_def jobs_select_policy_def)
  then have ids: "j_id j \<in> set (map j_id (filter ?target (jobs d)))"
    using j by (simp add: image_iff) blast
  have 1: "j \<notin> set (jobs (delete_jobs d uid wher))"
    using t by (simp add: delete_jobs_def Let_def)
  have 2: "filter (\<lambda>a. a_job_id a = j_id j) (applications (delete_jobs d uid wher)) = []"
    using ids by (auto simp: delete_jobs_def Let_def filter_empty_conv)
  have 3: "filter (\<lambda>s. s_job_id s = j_id j) (saved_jobs (delete_jobs d uid wher)) = []"
    using ids by (auto simp: delete_jobs_def Let_def filter_empty_conv)
  have 4: "j_id j \<notin> set (map j_id (jobs (delete_jobs d uid wher)))" if "unique_ok d"
  proof -
    from that have "distinct (map j_id (jobs d))" by (simp add: unique_ok_def)
    then have "\<And>x. x \<in> set (jobs d) \<Longrightarrow> j_id x = j_id j \<Longrightarrow> x = j"
      using j by (auto simp: distinct_map dest: inj_onD)
    then show ?thesis
      using t by (auto simp: delete_jobs_def Let_def)
  qed
  from 1 2 3 4 show "j \<notin> set (jobs (delete_jobs d uid wher)) \<and>
     filter (\<lambda>a. a_job_id a = j_id j) (applications (delete_jobs d uid wher)) = [] \<and>
     filter (\<lambda>s. s_job_id s = j_id j) (saved_jobs (delete_jobs d uid wher)) = [] \<and>
     (unique_ok d \<longrightarrow> j_id j \<notin> set (map j_id (jobs (delete_jobs d uid wher))))"
    by blast
qed

theorem job_delete_cascades_witness:
  "ex_job \<in> set (jobs ex_db) \<and> Some (j_recruiter_id ex_job) = Some (str ''r1'') \<and>
   j_id ex_job = str ''j1'' \<and>
   filter (\<lambda>a. a_job_id a = str ''j1'') (applications ex_db) = [ex_application] \<and>
   filter (\<lambda>s. s_job_id s = str ''j1'') (saved_jobs ex_db) = [ex_saved_job] \<and>
   delete_jobs ex_db (Some (str ''r1'')) (\<lambda>j. j_id j = str ''j1'') =
     ex_db\<lparr>jobs := [ex_closed_job], applications := [], saved_jobs := []\<rparr> \<and>
   ex_job \<notin> set (jobs (delete_jobs ex_db (Some (str ''r1'')) (\<lambda>j. j_id j = str ''j1''))) \<and>
   filter (\<lambda>a. a_job_id a = str ''j1'')
     (applications (delete_jobs ex_db (Some (str ''r1'')) (\<lambda>j. j_id j = str ''j1''))) = [] \<and>
   filter (\<lambda>s. s_job_id s = str ''j1'')
     (saved_jobs (delete_jobs ex_db (Some (str ''r1'')) (\<lambda>j. j_id j = str ''j1''))) = []"
proof -
  have before: "filter (\<lambda>a. a_job_id a = str ''j1'') (applications ex_db) = [ex_application]"
    "filter (\<lambda>s. s_job_id s = str ''j1'') (saved_jobs ex_db) = [ex_saved_job]"
    by (simp_all add: ex_defs)
  show ?thesis
    using job_delete_cascades [of ex_job ex_db "Some (str ''r1'')" "\<lambda>j. j_id j = str ''j1''"]
      ex_job_facts ex_job_id before ex_delete_job_by_owner
    by simp
qed

text \<open>
  Claim C8. Through every sequence of the operations that the source implements (sign-up
  with its trigger, posting, viewing and listing jobs, applying, saving, status updates,
  profile edits, resume uploads), the rows of the jobs table stay as they are and new rows
  are added behind them with both counters 0: no operation writes \<open>views_count\<close> or
  \<open>applications_count\<close>. So where all counters are 0 they stay 0, and the trigger on jobs
  touches neither.
\<close>

theorem job_counters_never_written:
  "take (length (jobs d)) (jobs (session d acts)) = jobs d \<and>
   (\<forall>j \<in> set (drop (length (jobs d)) (jobs (session d acts))).
      j_views_count j = Some 0 \<and> j_applications_count j = Some 0) \<and>
   ((\<forall>j \<in> set (jobs d). j_views_count j = Some 0 \<and> j_applications_count j = Some 0) \<longrightarrow>
    (\<forall>j \<in> set (jobs (session d acts)).
       j_views_count j = Some 0 \<and> j_applications_count j = Some 0)) \<and>
   j_views_count (update_jobs_updated_at now j') = j_views_count j' \<and>
   j_applications_count (update_jobs_updated_at now j') = j_applications_count j'"
proof -
  from jobs_session [of d acts] obtain new where
    new: "jobs (session d acts) = jobs d @ new"
      "\<forall>j \<in> set new. j_views_count j = Some 0 \<and> j_applications_count j = Some 0"
    by blast
  then show ?thesis
    by (auto simp: update_jobs_updated_at_def)
qed

theorem job_counters_never_written_witness:
  "list_all (\<lambda>j. j_views_count j = Some 0 \<and> j_applications_count j = Some 0) (jobs ex_db) \<and>
   jobs (perform ex_db 10 (Post_job (str ''j3'') (\<lambda>s. None) (Some (str ''r1'')) ex_form))
     \<noteq> jobs ex_db \<and>
   take 2 (jobs (session ex_db ex_acts)) = jobs ex_db \<and>
   list_all (\<lambda>j. j_views_count j = Some 0 \<and> j_applications_count j = Some 0)
     (jobs (session ex_db ex_acts))"
  using job_counters_never_written [of ex_db ex_acts]
    ex_counters_zero ex_post_job
  by (simp add: list_all_iff)

text \<open>
  Claim C9. Every element of the array that the job form makes of its skills field is
  non-empty and neither begins nor ends with a white-space code unit. For a field of
  commas and white space only the array is empty. A job that the form's handler adds to
  the table has exactly this array as \<open>required_skills\<close>, the empty one included.
\<close>

theorem skills_parser_trimmed_nonempty:
  "(\<forall>x \<in> set (skillsArray s).
      x \<noteq> [] \<and> \<not> isWhiteSpace (hd x) \<and> \<not> isWhiteSpace (last x)) \<and>
   ((\<forall>c \<in> set s. c = of_char CHR '','' \<or> isWhiteSpace c) \<longrightarrow> skillsArray s = []) \<and>
   (\<forall>row \<in> set (drop (length (jobs d))
                  (jobs (fst (PostJob_handleSubmit d now gen parseInt user formData)))).
      j_required_skills row = skillsArray (fd_required_skills formData))"
proof (intro conjI impI ballI)
  fix x assume "x \<in> set (skillsArray s)"
  then obtain seg where x: "x = trim seg" and ne: "trim seg \<noteq> []"
    by (auto simp: skillsArray_def)
  show "x \<noteq> []" using x ne by simp
  show "\<not> isWhiteSpace (hd x)" unfolding x using ne by (rule trim_ends)
  show "\<not> isWhiteSpace (last x)" unfolding x using ne by (rule trim_ends)
next
  assume "\<forall>c \<in> set s. c = of_char CHR '','' \<or> isWhiteSpace c"
  then show "skillsArray s = []" by (rule skillsArray_blank)
next
  fix row
  assume row: "row \<in> set (drop (length (jobs d))
                  (jobs (fst (PostJob_handleSubmit d now gen parseInt user formData))))"
  from PostJob_handleSubmit_rows [of d now gen parseInt user formData]
  obtain rows where
    "jobs (fst (PostJob_handleSubmit d now gen parseInt user formData)) = jobs d @ rows"
    "\<forall>row \<in> set rows. j_required_skills row = skillsArray (fd_required_skills formData)"
    by blast
  with row show "j_required_skills row = skillsArray (fd_required_skills formData)"
    by simp
qed

theorem skills_parser_trimmed_nonempty_witness:
  "skillsArray (str '' React,, Node.js , '') = [str ''React'', str ''Node.js''] \<and>
   list_all (\<lambda>x. x \<noteq> [] \<and> \<not> isWhiteSpace (hd x) \<and> \<not> isWhiteSpace (last x))
     (skillsArray (str '' React,, Node.js , '')) \<and>
   list_all (\<lambda>c. c = of_char CHR '','' \<or> isWhiteSpace c) (str '' , ,'') \<and>
   skillsArray (str '' , ,'') = [] \<and>
   map j_required_skills (drop (length (jobs ex_db))
     (jobs (fst (PostJob_handleSubmit ex_db 10 (str ''j3'') (\<lambda>s. None) (Some (str ''r1''))
        ex_blank_form)))) = [[]]"
proof -
  have l: "list_all (\<lambda>x. x \<noteq> [] \<and> \<not> isWhiteSpace (hd x) \<and> \<not> isWhiteSpace (last x))
     (skillsArray (str '' React,, Node.js , ''))"
    using skills_parser_trimmed_nonempty [of "str '' React,, Node.js , ''" ex_db 10 "str ''j3''"
      "\<lambda>s. None" "Some (str ''r1'')" ex_blank_form]
    by (simp add: list_all_iff)
  have b: "list_all (\<lambda>c. c = of_char CHR '','' \<or> isWhiteSpace c) (str '' , ,'')"
    using ex_blank_chars by (simp add: list_all_iff)
  have e: "skillsArray (str '' , ,'') = []"
    using skills_parser_trimmed_nonempty [of "str '' , ,''" ex_db 10 "str ''j3''"
      "\<lambda>s. None" "Some (str ''r1'')" ex_blank_form] ex_blank_chars
    by blast
  have p: "map j_required_skills (drop (length (jobs ex_db))
     (jobs (fst (PostJob_handleSubmit ex_db 10 (str ''j3'') (\<lambda>s. None) (Some (str ''r1''))
        ex_blank_form)))) = [[]]"
    by (simp add: ex_post_blank_job)
  from l b e ex_skills(1) p show ?thesis
    by (intro conjI)
qed

text \<open>
  Claim C10. For a file of more than 5 * 1024 * 1024 bytes \<open>handleResumeUpload\<close> returns
  at its size check: the store, with the objects of the bucket and every profile's
  \<open>resume_url\<close> in it, and the profile held by the page are what they were, and the only
  effect is the toast "File size must be less than 5MB".
\<close>

theorem oversized_resume_rejected:
  "f_size fl > 5 * 1024 * 1024 \<longrightarrow>
     handleResumeUpload d now getPublicUrl (Some user_id) prof (Some fl) =
       (d, prof, Some (Toast_error (str ''File size must be less than 5MB'') None)) \<and>
     objects (fst (handleResumeUpload d now getPublicUrl user prof (Some fl))) = objects d \<and>
     profiles (fst (handleResumeUpload d now getPublicUrl user prof (Some fl))) = profiles d \<and>
     fst (snd (handleResumeUpload d now getPublicUrl user prof (Some fl))) = prof"
  by (cases user) (simp_all add: handleResumeUpload_def)

theorem oversized_resume_rejected_witness:
  "f_size \<lparr>f_name = str ''cv.pdf'', f_size = 5242881\<rparr> > 5 * 1024 * 1024 \<and>
   handleResumeUpload ex_db 9 (\<lambda>n. str ''https://x/'' @ n) (Some (str ''s1'')) ex_seeker
       (Some \<lparr>f_name = str ''cv.pdf'', f_size = 5242881\<rparr>) =
     (ex_db, ex_seeker, Some (Toast_error (str ''File size must be less than 5MB'') None))"
  using oversized_resume_rejected [of "\<lparr>f_name = str ''cv.pdf'', f_size = 5242881\<rparr>" ex_db 9
      "\<lambda>n. str ''https://x/'' @ n" "str ''s1''" ex_seeker "Some (str ''s1'')"]
  by simp

end
